theory Spec2Isabelle
  imports Main "HOL-Library.Sublist"
begin

section \<open>Company formation server: validation, document rendering, request handlers\<close>

text \<open>
  A shallow embedding of \<^verbatim>\<open>app.py\<close>: the two pydantic models with their field
  validators, the five document generators and the two POST handlers.

  Strings are lists of 8-bit characters. The embedding is exact for ASCII text; Python's
  Unicode case mapping and Unicode white space beyond ASCII are not modelled.
\<close>

subsection \<open>Strings\<close>

text \<open>\<^verbatim>\<open>str.upper()\<close>: the letters a-z become A-Z, every other character stays.\<close>

definition upper_char :: "char \<Rightarrow> char" where
  "upper_char c =
     (case map_of (zip ''abcdefghijklmnopqrstuvwxyz'' ''ABCDEFGHIJKLMNOPQRSTUVWXYZ'') c of
        Some u \<Rightarrow> u
      | None \<Rightarrow> c)"

definition upper :: "string \<Rightarrow> string" where
  "upper s = map upper_char s"

text \<open>\<^verbatim>\<open>str.replace(old, new)\<close> for a single-character \<^verbatim>\<open>old\<close> and \<^verbatim>\<open>new\<close>.\<close>

definition replace_char :: "char \<Rightarrow> char \<Rightarrow> string \<Rightarrow> string" where
  "replace_char old new s = map (\<lambda>c. if c = old then new else c) s"

text \<open>\<^verbatim>\<open>str(n)\<close> for an integer: decimal digits, a minus sign for a negative number.\<close>

definition digit_char :: "nat \<Rightarrow> char" where
  "digit_char d = ''0123456789'' ! (d mod 10)"

fun str_nat :: "nat \<Rightarrow> string" where
  "str_nat n = (if n < 10 then [digit_char n] else str_nat (n div 10) @ [digit_char (n mod 10)])"

definition str_int :: "int \<Rightarrow> string" where
  "str_int i = (if i < 0 then CHR ''-'' # str_nat (nat (- i)) else str_nat (nat i))"

subsection \<open>Regular expressions as used by \<^verbatim>\<open>re.match\<close>\<close>

text \<open>
  The two patterns of the source are built from literal characters, character classes
  (single characters, ranges and \<^verbatim>\<open>\s\<close>), concatenation, alternation and \<^verbatim>\<open>+\<close>.
  \<open>Null\<close> and \<open>Eps\<close> only arise while matching.
\<close>

datatype atom = Ch char | Rg char char | Ws

datatype rexp =
    Null
  | Eps
  | Lit char
  | Cls "atom list"
  | Seq rexp rexp
  | Alt rexp rexp
  | Star rexp

definition Plus :: "rexp \<Rightarrow> rexp" where
  "Plus r = Seq r (Star r)"

text \<open>ASCII white space as \<^verbatim>\<open>\s\<close> sees it: code points 9-13, 28-31 and 32.\<close>

definition is_space :: "char \<Rightarrow> bool" where
  "is_space c = ((9 \<le> (of_char c :: nat) \<and> (of_char c :: nat) \<le> 13) \<or>
                 (28 \<le> (of_char c :: nat) \<and> (of_char c :: nat) \<le> 32))"

fun atom_match :: "atom \<Rightarrow> char \<Rightarrow> bool" where
  "atom_match (Ch a) c = (c = a)"
| "atom_match (Rg lo hi) c = ((of_char lo :: nat) \<le> of_char c \<and> (of_char c :: nat) \<le> of_char hi)"
| "atom_match Ws c = is_space c"

definition cls_match :: "atom list \<Rightarrow> char \<Rightarrow> bool" where
  "cls_match as c = list_ex (\<lambda>a. atom_match a c) as"

text \<open>The matcher: does the expression accept the empty string, and what is left of it
  after one character has been read.\<close>

fun nullable :: "rexp \<Rightarrow> bool" where
  "nullable Null = False"
| "nullable Eps = True"
| "nullable (Lit c) = False"
| "nullable (Cls as) = False"
| "nullable (Seq r s) = (nullable r \<and> nullable s)"
| "nullable (Alt r s) = (nullable r \<or> nullable s)"
| "nullable (Star r) = True"

fun deriv :: "char \<Rightarrow> rexp \<Rightarrow> rexp" where
  "deriv c Null = Null"
| "deriv c Eps = Null"
| "deriv c (Lit a) = (if c = a then Eps else Null)"
| "deriv c (Cls as) = (if cls_match as c then Eps else Null)"
| "deriv c (Seq r s) =
     (if nullable r then Alt (Seq (deriv c r) s) (deriv c s) else Seq (deriv c r) s)"
| "deriv c (Alt r s) = Alt (deriv c r) (deriv c s)"
| "deriv c (Star r) = Seq (deriv c r) (Star r)"

fun matches :: "rexp \<Rightarrow> string \<Rightarrow> bool" where
  "matches r [] = nullable r"
| "matches r (c # cs) = matches (deriv c r) cs"

text \<open>
  \<^verbatim>\<open>re.match('^' r '$', v)\<close> is not \<^verbatim>\<open>None\<close>: the body matches from the start, and
  \<^verbatim>\<open>$\<close> holds at the end of the string or just before a newline that ends the string.
\<close>

definition re_match_anchored :: "rexp \<Rightarrow> string \<Rightarrow> bool" where
  "re_match_anchored r v =
     (matches r v \<or> (v \<noteq> [] \<and> last v = CHR 0x0A \<and> matches r (butlast v)))"

text \<open>The set of strings an expression denotes, for stating what the matcher accepts.\<close>

definition conc :: "string set \<Rightarrow> string set \<Rightarrow> string set" where
  "conc A B = {u @ v | u v. u \<in> A \<and> v \<in> B}"

inductive_set star :: "string set \<Rightarrow> string set" for A :: "string set" where
  star_empty: "[] \<in> star A"
| star_more: "u \<in> A \<Longrightarrow> v \<in> star A \<Longrightarrow> u @ v \<in> star A"

fun lang :: "rexp \<Rightarrow> string set" where
  "lang Null = {}"
| "lang Eps = {[]}"
| "lang (Lit c) = {[c]}"
| "lang (Cls as) = {[c] | c. cls_match as c}"
| "lang (Seq r s) = conc (lang r) (lang s)"
| "lang (Alt r s) = lang r \<union> lang s"
| "lang (Star r) = star (lang r)"

text \<open>The strings \<^verbatim>\<open>'^' r '$'\<close> accepts under \<^verbatim>\<open>re.match\<close>: the language of the body,
  each string with or without one final newline.\<close>

definition anchored_lang :: "rexp \<Rightarrow> string set" where
  "anchored_lang r = lang r \<union> {u @ [CHR 0x0A] | u. u \<in> lang r}"

text \<open>\<^verbatim>\<open>^(0[1-9]|1[0-2])-(0[1-9]|[12][0-9]|3[01])$\<close>: the month group, a hyphen, the
  day group.\<close>

definition month_re :: rexp where
  "month_re =
     Alt (Seq (Lit CHR ''0'') (Cls [Rg CHR ''1'' CHR ''9'']))
         (Seq (Lit CHR ''1'') (Cls [Rg CHR ''0'' CHR ''2'']))"

definition day_re :: rexp where
  "day_re =
     Alt (Seq (Lit CHR ''0'') (Cls [Rg CHR ''1'' CHR ''9'']))
         (Alt (Seq (Cls [Ch CHR ''1'', Ch CHR ''2'']) (Cls [Rg CHR ''0'' CHR ''9'']))
              (Seq (Lit CHR ''3'') (Cls [Ch CHR ''0'', Ch CHR ''1''])))"

definition fiscal_year_end_re :: rexp where
  "fiscal_year_end_re = Seq month_re (Seq (Lit CHR ''-'') day_re)"

text \<open>\<^verbatim>\<open>^[a-zA-Z0-9\s,\.\'&]+$\<close>\<close>

definition company_name_re :: rexp where
  "company_name_re =
     Plus (Cls [Rg CHR ''a'' CHR ''z'', Rg CHR ''A'' CHR ''Z'', Rg CHR ''0'' CHR ''9'', Ws,
                Ch CHR '','', Ch CHR ''.'', Ch CHR 0x27, Ch CHR ''&''])"

subsection \<open>Exceptions\<close>

text \<open>
  A pydantic \<^verbatim>\<open>ValidationError\<close> carries one entry per offending field: the field's
  name and the reason. \<open>Raised m\<close> is a \<^verbatim>\<open>ValueError(m)\<close> raised by a validator
  function of the source.
\<close>

datatype reason = Required | NotPermitted | BelowMinimum | AboveMaximum | Raised string

datatype exn =
    ValidationError "(string \<times> reason) list"
  | TypeError
  | ValueError string
  | NameError string

subsection \<open>The field validators declared in class \<^verbatim>\<open>BylawsRequest\<close>\<close>

text \<open>Each returns the value (\<open>Inr\<close>) or the message of the \<^verbatim>\<open>ValueError\<close> it
  raises (\<open>Inl\<close>).\<close>

definition validate_fiscal_year_end :: "string \<Rightarrow> string + string" where
  "validate_fiscal_year_end v =
     (if \<not> re_match_anchored fiscal_year_end_re v
      then Inl ''Fiscal year end must be in MM-DD format''
      else Inr v)"

definition months :: "string list" where
  "months = [''January'', ''February'', ''March'', ''April'', ''May'', ''June'',
             ''July'', ''August'', ''September'', ''October'', ''November'', ''December'']"

definition validate_annual_meeting_month :: "string \<Rightarrow> string + string" where
  "validate_annual_meeting_month v =
     (if v \<notin> set months
      then Inl ''Annual meeting month must be a valid month name''
      else Inr v)"

definition validate_company_name :: "string \<Rightarrow> string + string" where
  "validate_company_name v =
     (if \<not> re_match_anchored company_name_re v
      then Inl ''Company name can only contain alphanumeric characters, spaces, commas, periods, apostrophes, and ampersands''
      else Inr v)"

definition states :: "string list" where
  "states =
     [''AL'', ''AK'', ''AZ'', ''AR'', ''CA'', ''CO'', ''CT'', ''DE'', ''FL'', ''GA'',
      ''HI'', ''ID'', ''IL'', ''IN'', ''IA'', ''KS'', ''KY'', ''LA'', ''ME'', ''MD'',
      ''MA'', ''MI'', ''MN'', ''MS'', ''MO'', ''MT'', ''NE'', ''NV'', ''NH'', ''NJ'',
      ''NM'', ''NY'', ''NC'', ''ND'', ''OH'', ''OK'', ''OR'', ''PA'', ''RI'', ''SC'',
      ''SD'', ''TN'', ''TX'', ''UT'', ''VT'', ''VA'', ''WA'', ''WV'', ''WI'', ''WY'',
      ''DC'', ''PR'', ''GU'', ''VI'', ''AS'', ''MP'']"

definition validate_state :: "string \<Rightarrow> string + string" where
  "validate_state v =
     (if upper v \<notin> set states
      then Inl ''Invalid US state or territory''
      else Inr (upper v))"

subsection \<open>The two models\<close>

text \<open>
  The keyword arguments a model is built from (\<^verbatim>\<open>Model(**data)\<close>): one entry per
  declared field, \<open>None\<close> when the key is absent or its value is null, otherwise a value
  of the JSON type the field declares. pydantic's coercion of values of another JSON type
  is not modelled.
\<close>

record formation_data =
  fd_company_name :: "string option"
  fd_state_of_formation :: "string option"
  fd_company_type :: "string option"
  fd_incorporator_name :: "string option"

record bylaws_data =
  bd_company_name :: "string option"
  bd_principal_office :: "string option"
  bd_fiscal_year_end :: "string option"
  bd_board_size :: "int option"
  bd_officer_titles :: "string list option"
  bd_annual_meeting_month :: "string option"
  bd_quorum_percentage :: "int option"

record CompanyFormation =
  company_name :: string
  state_of_formation :: string
  company_type :: string
  incorporator_name :: string

record BylawsRequest =
  company_name :: string
  principal_office :: string
  fiscal_year_end :: string
  board_size :: int
  officer_titles :: "string list"
  annual_meeting_month :: string
  quorum_percentage :: int

text \<open>\<^verbatim>\<open>Field(...)\<close>: the field is required.\<close>

definition required :: "'a option \<Rightarrow> reason + 'a" where
  "required x = (case x of None \<Rightarrow> Inl Required | Some v \<Rightarrow> Inr v)"

text \<open>\<^verbatim>\<open>Literal[...]\<close>: the value is one of the listed strings, compared exactly.\<close>

definition literal :: "string list \<Rightarrow> string \<Rightarrow> reason + string" where
  "literal allowed v = (if v \<in> set allowed then Inr v else Inl NotPermitted)"

text \<open>\<^verbatim>\<open>ge=\<close> and \<^verbatim>\<open>le=\<close> constraints of an integer field.\<close>

definition ge :: "int \<Rightarrow> int \<Rightarrow> reason + int" where
  "ge bound v = (if bound \<le> v then Inr v else Inl BelowMinimum)"

definition le :: "int \<Rightarrow> int \<Rightarrow> reason + int" where
  "le bound v = (if v \<le> bound then Inr v else Inl AboveMaximum)"

text \<open>A \<^verbatim>\<open>@validator\<close> function run on a field: its \<^verbatim>\<open>ValueError\<close> becomes the
  field's reason.\<close>

definition validator :: "(string \<Rightarrow> string + string) \<Rightarrow> string \<Rightarrow> reason + string" where
  "validator f v = (case f v of Inl m \<Rightarrow> Inl (Raised m) | Inr w \<Rightarrow> Inr w)"

definition and_then :: "reason + 'a \<Rightarrow> ('a \<Rightarrow> reason + 'b) \<Rightarrow> reason + 'b" where
  "and_then r f = (case r of Inl e \<Rightarrow> Inl e | Inr v \<Rightarrow> f v)"

definition field_errors :: "string \<Rightarrow> reason + 'a \<Rightarrow> (string \<times> reason) list" where
  "field_errors name r = (case r of Inl e \<Rightarrow> [(name, e)] | Inr v \<Rightarrow> [])"

text \<open>
  \<^verbatim>\<open>CompanyFormation(**data)\<close>. The class declares four required fields and no validator
  function: \<^verbatim>\<open>validate_company_name\<close> and \<^verbatim>\<open>validate_state\<close> are methods of
  \<^verbatim>\<open>BylawsRequest\<close>.
\<close>

definition CompanyFormation_new :: "formation_data \<Rightarrow> exn + CompanyFormation" where
  "CompanyFormation_new data =
     (let cn = required (fd_company_name data);
          st = required (fd_state_of_formation data);
          ct = and_then (required (fd_company_type data)) (literal [''corporation'', ''LLC'']);
          inc = required (fd_incorporator_name data)
      in case (cn, st, ct, inc) of
           (Inr a, Inr b, Inr c, Inr d) \<Rightarrow>
             Inr \<lparr>CompanyFormation.company_name = a, state_of_formation = b,
                  company_type = c, incorporator_name = d\<rparr>
         | _ \<Rightarrow>
             Inl (ValidationError
                    (field_errors ''company_name'' cn @ field_errors ''state_of_formation'' st @
                     field_errors ''company_type'' ct @ field_errors ''incorporator_name'' inc)))"

text \<open>
  \<^verbatim>\<open>BylawsRequest(**data)\<close>. \<^verbatim>\<open>validate_state\<close> names the field
  \<^verbatim>\<open>state_of_formation\<close>, which this class does not declare, so it runs on no field.
  (pydantic checks, when a class is created, that its validators name declared fields;
  that check is outside this embedding, which describes the classes as they are written.)
\<close>

definition BylawsRequest_new :: "bylaws_data \<Rightarrow> exn + BylawsRequest" where
  "BylawsRequest_new data =
     (let cn = and_then (required (bd_company_name data)) (validator validate_company_name);
          po = required (bd_principal_office data);
          fy = and_then (required (bd_fiscal_year_end data)) (validator validate_fiscal_year_end);
          bs = and_then (required (bd_board_size data)) (ge 1);
          ot = required (bd_officer_titles data);
          am = and_then (required (bd_annual_meeting_month data))
                 (validator validate_annual_meeting_month);
          qp = and_then (and_then (required (bd_quorum_percentage data)) (ge 0)) (le 100)
      in case (cn, po, fy, bs, ot, am, qp) of
           (Inr a, Inr b, Inr c, Inr d, Inr e, Inr f, Inr g) \<Rightarrow>
             Inr \<lparr>BylawsRequest.company_name = a, principal_office = b, fiscal_year_end = c,
                  board_size = d, officer_titles = e, annual_meeting_month = f,
                  quorum_percentage = g\<rparr>
         | _ \<Rightarrow>
             Inl (ValidationError
                    (field_errors ''company_name'' cn @ field_errors ''principal_office'' po @
                     field_errors ''fiscal_year_end'' fy @ field_errors ''board_size'' bs @
                     field_errors ''officer_titles'' ot @
                     field_errors ''annual_meeting_month'' am @
                     field_errors ''quorum_percentage'' qp)))"

subsection \<open>The canvas and the rendered document\<close>

text \<open>
  A document is what the reportlab canvas was told to draw, in order, on a page of the
  given size; the PDF byte encoding of these instructions is reportlab's and is not
  modelled. Coordinates are in points.
\<close>

datatype draw_op =
    SetFont string nat
  | DrawString int int string
  | DrawCentredString int int string

record document =
  pagesize :: "int \<times> int"
  ops :: "draw_op list"

text \<open>\<^verbatim>\<open>reportlab.lib.pagesizes.letter\<close>: 8.5 by 11 inches at 72 points per inch.\<close>

definition letter :: "int \<times> int" where
  "letter = (612, 792)"

definition Canvas :: "int \<times> int \<Rightarrow> document" where
  "Canvas page = \<lparr>pagesize = page, ops = []\<rparr>"

definition setFont :: "document \<Rightarrow> string \<Rightarrow> nat \<Rightarrow> document" where
  "setFont c name pt = c\<lparr>ops := ops c @ [SetFont name pt]\<rparr>"

definition drawString :: "document \<Rightarrow> int \<Rightarrow> int \<Rightarrow> string \<Rightarrow> document" where
  "drawString c x y s = c\<lparr>ops := ops c @ [DrawString x y s]\<rparr>"

definition drawCentredString :: "document \<Rightarrow> int \<Rightarrow> int \<Rightarrow> string \<Rightarrow> document" where
  "drawCentredString c x y s = c\<lparr>ops := ops c @ [DrawCentredString x y s]\<rparr>"

text \<open>A run of consecutive canvas calls.\<close>

fun apply_op :: "document \<Rightarrow> draw_op \<Rightarrow> document" where
  "apply_op c (SetFont name pt) = setFont c name pt"
| "apply_op c (DrawString x y s) = drawString c x y s"
| "apply_op c (DrawCentredString x y s) = drawCentredString c x y s"

definition draw :: "document \<Rightarrow> draw_op list \<Rightarrow> document" where
  "draw c calls = foldl apply_op c calls"

text \<open>
  The strings a document draws, in drawing order. They are the text content of the
  rendered page: what a text extractor reads back from the PDF is made of them.
\<close>

fun drawn_string :: "draw_op \<Rightarrow> string list" where
  "drawn_string (SetFont name pt) = []"
| "drawn_string (DrawString x y s) = [s]"
| "drawn_string (DrawCentredString x y s) = [s]"

definition drawn_strings :: "document \<Rightarrow> string list" where
  "drawn_strings d = concat (map drawn_string (ops d))"

subsection \<open>The clock\<close>

datatype month =
    January | February | March | April | May | June
  | July | August | September | October | November | December

record datetime =
  year :: nat
  month_of :: month
  day :: nat

fun month_name :: "month \<Rightarrow> string" where
  "month_name January = ''January''"
| "month_name February = ''February''"
| "month_name March = ''March''"
| "month_name April = ''April''"
| "month_name May = ''May''"
| "month_name June = ''June''"
| "month_name July = ''July''"
| "month_name August = ''August''"
| "month_name September = ''September''"
| "month_name October = ''October''"
| "month_name November = ''November''"
| "month_name December = ''December''"

text \<open>\<^verbatim>\<open>strftime('%d')\<close>: the day of the month, two digits.\<close>

definition strftime_d :: "datetime \<Rightarrow> string" where
  "strftime_d t = (if day t < 10 then ''0'' @ str_nat (day t) else str_nat (day t))"

text \<open>\<^verbatim>\<open>strftime('%B, %Y')\<close>: the month's full name, a comma, the year.\<close>

definition strftime_B_Y :: "datetime \<Rightarrow> string" where
  "strftime_B_Y t = month_name (month_of t) @ '', '' @ str_nat (year t)"

text \<open>
  Each formation generator calls \<^verbatim>\<open>datetime.now()\<close> twice; a clock is the pair of the
  two readings, in call order.
\<close>

type_synonym clock = "datetime \<times> datetime"

subsection \<open>The document generators\<close>

definition generate_delaware_articles :: "clock \<Rightarrow> CompanyFormation \<Rightarrow> document" where
  "generate_delaware_articles now company_data =
     draw (Canvas letter)
       [SetFont ''Helvetica-Bold'' 16,
        DrawCentredString 300 750 ''CERTIFICATE OF INCORPORATION'',
        SetFont ''Helvetica'' 12,
        DrawString 50 700 ''FIRST: The name of this corporation is:'',
        DrawString 70 680 (CompanyFormation.company_name company_data),
        DrawString 50 630 ''SECOND: Its registered office in the State of Delaware is located at:'',
        DrawString 70 610 ''251 Little Falls Drive, Wilmington, New Castle County, Delaware 19808'',
        DrawString 50 560 ''THIRD: The purpose of the corporation is to engage in any lawful act or activity for'',
        DrawString 50 540 ''which corporations may be organized under the General Corporation Law of Delaware.'',
        DrawString 50 490 ''FOURTH: The total number of shares of stock which this corporation is authorized'',
        DrawString 50 470 ''to issue is 1,000 shares of Common Stock with $0.01 par value per share.'',
        DrawString 50 200 ''IN WITNESS WHEREOF, the undersigned, being the incorporator hereinbefore named,'',
        DrawString 50 180 (''has executed this Certificate of Incorporation this '' @ strftime_d (fst now) @ '' day of''),
        DrawString 50 160 (strftime_B_Y (snd now) @ ''.''),
        DrawString 50 100 ''Incorporator:'',
        DrawString 70 80 (incorporator_name company_data)]"

definition generate_delaware_llc_certificate :: "clock \<Rightarrow> CompanyFormation \<Rightarrow> document" where
  "generate_delaware_llc_certificate now company_data =
     draw (Canvas letter)
       [SetFont ''Helvetica-Bold'' 16,
        DrawCentredString 300 750 ''CERTIFICATE OF FORMATION'',
        SetFont ''Helvetica'' 12,
        DrawString 50 700 ''FIRST: The name of the limited liability company is:'',
        DrawString 70 680 (CompanyFormation.company_name company_data),
        DrawString 50 630 ''SECOND: The address of its registered office in the State of Delaware is:'',
        DrawString 70 610 ''251 Little Falls Drive, Wilmington, New Castle County, Delaware 19808'',
        DrawString 50 560 ''THIRD: The name and address of its registered agent in the State of Delaware is:'',
        DrawString 70 540 ''Corporation Service Company'',
        DrawString 70 520 ''251 Little Falls Drive'',
        DrawString 70 500 ''Wilmington, DE 19808'',
        DrawString 50 450 ''FOURTH: The limited liability company shall be managed by its members.'',
        DrawString 50 200 (''IN WITNESS WHEREOF, the undersigned has executed this Certificate of Formation this '' @ strftime_d (fst now) @ '' day of''),
        DrawString 50 180 (strftime_B_Y (snd now) @ ''.''),
        DrawString 50 100 ''Authorized Person:'',
        DrawString 70 80 (incorporator_name company_data)]"

definition generate_california_articles :: "clock \<Rightarrow> CompanyFormation \<Rightarrow> document" where
  "generate_california_articles now company_data =
     draw (Canvas letter)
       [SetFont ''Helvetica-Bold'' 16,
        DrawCentredString 300 750 ''ARTICLES OF INCORPORATION'',
        SetFont ''Helvetica'' 12,
        DrawString 50 700 ''ARTICLE I: The name of this corporation is:'',
        DrawString 70 680 (CompanyFormation.company_name company_data),
        DrawString 50 630 ''ARTICLE II: The purpose of the corporation is to engage in any lawful act or activity'',
        DrawString 50 610 ''for which a corporation may be organized under the General Corporation Law of California.'',
        DrawString 50 560 (''ARTICLE III: The name and address in California of the corporation'' @ [CHR 0x27] @ ''s initial agent for service of process is:''),
        DrawString 70 540 ''California Registered Agent, Inc.'',
        DrawString 70 520 ''123 Main Street'',
        DrawString 70 500 ''Los Angeles, CA 90001'',
        DrawString 50 200 ''IN WITNESS WHEREOF, the undersigned, being the incorporator hereinbefore named,'',
        DrawString 50 180 (''has executed these Articles of Incorporation this '' @ strftime_d (fst now) @ '' day of''),
        DrawString 50 160 (strftime_B_Y (snd now) @ ''.''),
        DrawString 50 100 ''Incorporator:'',
        DrawString 70 80 (incorporator_name company_data)]"

definition generate_california_llc_certificate :: "clock \<Rightarrow> CompanyFormation \<Rightarrow> document" where
  "generate_california_llc_certificate now company_data =
     draw (Canvas letter)
       [SetFont ''Helvetica-Bold'' 16,
        DrawCentredString 300 750 ''ARTICLES OF ORGANIZATION'',
        SetFont ''Helvetica'' 12,
        DrawString 50 700 ''ARTICLE I: The name of the limited liability company is:'',
        DrawString 70 680 (CompanyFormation.company_name company_data),
        DrawString 50 630 ''ARTICLE II: The purpose of the limited liability company is to engage in any lawful business.'',
        DrawString 50 560 (''ARTICLE III: The name and address in California of the LLC'' @ [CHR 0x27] @ ''s initial agent for service of process is:''),
        DrawString 70 540 ''California Registered Agent, Inc.'',
        DrawString 70 520 ''123 Main Street'',
        DrawString 70 500 ''Los Angeles, CA 90001'',
        DrawString 50 200 (''IN WITNESS WHEREOF, the undersigned has executed these Articles of Organization this '' @ strftime_d (fst now) @ '' day of''),
        DrawString 50 180 (strftime_B_Y (snd now) @ ''.''),
        DrawString 50 100 ''Authorized Person:'',
        DrawString 70 80 (incorporator_name company_data)]"

text \<open>
  The loop over the officer titles of \<^verbatim>\<open>generate_bylaws\<close>: it carries the canvas and
  the running coordinate \<^verbatim>\<open>y\<close> and returns both.
\<close>

fun officers_loop :: "document \<Rightarrow> int \<Rightarrow> string list \<Rightarrow> document \<times> int" where
  "officers_loop c y [] = (c, y)"
| "officers_loop c y (title # titles) =
     officers_loop (drawString c 70 y (''- '' @ title)) (y - 20) titles"

definition generate_bylaws :: "BylawsRequest \<Rightarrow> document" where
  "generate_bylaws bylaws_data =
     (let c = draw (Canvas letter)
                [SetFont ''Helvetica-Bold'' 16,
                 DrawCentredString 300 750 ''CORPORATE BYLAWS OF'',
                 DrawCentredString 300 730 (upper (BylawsRequest.company_name bylaws_data)),
                 SetFont ''Helvetica-Bold'' 14,
                 DrawString 50 680 ''ARTICLE I - OFFICES'',
                 SetFont ''Helvetica'' 12,
                 DrawString 50 660 ''The principal office of the corporation shall be located at:'',
                 DrawString 70 640 (principal_office bylaws_data),
                 SetFont ''Helvetica-Bold'' 14,
                 DrawString 50 600 ''ARTICLE II - SHAREHOLDERS MEETINGS'',
                 SetFont ''Helvetica'' 12,
                 DrawString 50 580 ''1. Annual Meeting. The annual meeting of shareholders shall be held in'',
                 DrawString 70 560 (annual_meeting_month bylaws_data @ '' of each year.''),
                 DrawString 50 540 (''2. Quorum. '' @ str_int (quorum_percentage bylaws_data) @ ''% of the outstanding shares shall constitute''),
                 DrawString 70 520 ''a quorum for the transaction of business.'',
                 SetFont ''Helvetica-Bold'' 14,
                 DrawString 50 480 ''ARTICLE III - BOARD OF DIRECTORS'',
                 SetFont ''Helvetica'' 12,
                 DrawString 50 460 (''1. Number. The Board of Directors shall consist of '' @ str_int (board_size bylaws_data)),
                 DrawString 70 440 ''director(s).'',
                 SetFont ''Helvetica-Bold'' 14,
                 DrawString 50 400 ''ARTICLE IV - OFFICERS'',
                 SetFont ''Helvetica'' 12,
                 DrawString 50 380 ''1. Officers. The officers of the corporation shall be:''];
          (c, y) = officers_loop c 360 (officer_titles bylaws_data)
      in draw c
           [SetFont ''Helvetica-Bold'' 14,
            DrawString 50 (y - 20) ''ARTICLE V - FISCAL YEAR'',
            SetFont ''Helvetica'' 12,
            DrawString 50 (y - 40) (''The fiscal year of the corporation shall end on '' @ fiscal_year_end bylaws_data),
            DrawString 50 (y - 60) ''of each year.''])"

subsection \<open>The request handlers\<close>

text \<open>
  What a view function returns: a file download (\<^verbatim>\<open>send_file\<close>: body, MIME type,
  \<^verbatim>\<open>as_attachment\<close>, \<^verbatim>\<open>download_name\<close>) or a JSON error object with a status
  (\<^verbatim>\<open>jsonify({"error": ...}), status\<close>). The error is a literal message or
  \<^verbatim>\<open>str(e)\<close> of the exception caught.
\<close>

datatype error_message = Message string | StrOf exn

datatype response =
    SendFile document string bool string
  | JsonError error_message nat

text \<open>
  \<^verbatim>\<open>send_file\<close> puts \<^verbatim>\<open>download_name\<close> into the Content-Disposition header, and a
  header value that holds a carriage return or a line feed is refused with a
  \<^verbatim>\<open>ValueError\<close>.
\<close>

definition send_file :: "document \<Rightarrow> string \<Rightarrow> bool \<Rightarrow> string \<Rightarrow> exn + response" where
  "send_file body mimetype as_attachment download_name =
     (if CHR 0x0D \<in> set download_name \<or> CHR 0x0A \<in> set download_name
      then Inl (ValueError ''Header values must not contain newline characters.'')
      else Inr (SendFile body mimetype as_attachment download_name))"

text \<open>The decoded body of a JSON request: an object, read as keyword arguments, or any
  other JSON value.\<close>

datatype 'a json_body = JsonObject 'a | JsonOther

text \<open>\<^verbatim>\<open>Model(**data)\<close> where \<^verbatim>\<open>data\<close> is not a mapping raises \<^verbatim>\<open>TypeError\<close>.\<close>

definition unpack :: "'a json_body \<Rightarrow> exn + 'a" where
  "unpack body = (case body of JsonObject data \<Rightarrow> Inr data | JsonOther \<Rightarrow> Inl TypeError)"

text \<open>A POST to \<^verbatim>\<open>/form-company\<close>: JSON (\<^verbatim>\<open>request.is_json\<close>) or form encoded, where
  each field is read with \<^verbatim>\<open>request.form.get\<close>.\<close>

datatype formation_request = IsJson "formation_data json_body" | FormEncoded formation_data

definition form_company :: "clock \<Rightarrow> formation_request \<Rightarrow> response" where
  "form_company now request =
     (case (case request of IsJson body \<Rightarrow> unpack body | FormEncoded form \<Rightarrow> Inr form) of
        Inl e \<Rightarrow> JsonError (StrOf e) 400
      | Inr data \<Rightarrow>
          (case CompanyFormation_new data of
             Inl e \<Rightarrow> JsonError (StrOf e) 400
           | Inr company_data \<Rightarrow>
               (case
                  (if state_of_formation company_data = ''DE'' then
                     (if company_type company_data = ''corporation'' then
                        Inr (generate_delaware_articles now company_data)
                      else if company_type company_data = ''LLC'' then
                        Inr (generate_delaware_llc_certificate now company_data)
                      else Inl (JsonError (Message ''Unsupported company type'') 400))
                   else if state_of_formation company_data = ''CA'' then
                     (if company_type company_data = ''corporation'' then
                        Inr (generate_california_articles now company_data)
                      else if company_type company_data = ''LLC'' then
                        Inr (generate_california_llc_certificate now company_data)
                      else Inl (JsonError (Message ''Unsupported company type'') 400))
                   else Inl (JsonError
                          (Message ''Only Delaware and California entities are supported at this time'')
                          400))
                of
                  Inl early \<Rightarrow> early
                | Inr pdf_buffer \<Rightarrow>
                    (case send_file pdf_buffer ''application/pdf'' True
                            (CompanyFormation.company_name company_data @ ''_certificate.pdf'') of
                       Inl e \<Rightarrow> JsonError (StrOf e) 400
                     | Inr sent \<Rightarrow> sent))))"

text \<open>
  The names bound in the module's global namespace when a handler runs: the imports, the
  two classes and the functions. \<^verbatim>\<open>ValidationError\<close> is not imported.
\<close>

definition module_globals :: "string list" where
  "module_globals =
     [''Flask'', ''request'', ''jsonify'', ''send_file'', ''BaseModel'', ''Field'', ''validator'',
      ''Literal'', ''List'', ''re'', ''BytesIO'', ''canvas'', ''letter'', ''datetime'', ''os'',
      ''app'', ''CompanyFormation'', ''BylawsRequest'', ''generate_delaware_articles'',
      ''generate_delaware_llc_certificate'', ''generate_california_articles'',
      ''generate_california_llc_certificate'', ''form_company'', ''form_company_schema'',
      ''company_form'', ''generate_bylaws'', ''generate_company_bylaws'']"

fun is_ValidationError :: "exn \<Rightarrow> bool" where
  "is_ValidationError (ValidationError errs) = True"
| "is_ValidationError e = False"

text \<open>
  A POST to \<^verbatim>\<open>/generate-bylaws\<close>. When the \<^verbatim>\<open>try\<close> block raises, the first handler
  clause \<^verbatim>\<open>except ValidationError\<close> looks the name up; a name that is not bound raises
  \<^verbatim>\<open>NameError\<close>, which leaves the view function (\<open>Inl\<close>).
\<close>

definition generate_company_bylaws :: "bylaws_data json_body \<Rightarrow> exn + response" where
  "generate_company_bylaws body =
     (case (case unpack body of
              Inl e \<Rightarrow> Inl e
            | Inr data \<Rightarrow>
                (case BylawsRequest_new data of
                   Inl e \<Rightarrow> Inl e
                 | Inr bylaws_data \<Rightarrow>
                     send_file (generate_bylaws bylaws_data) ''application/pdf'' False
                       (replace_char CHR '' '' CHR ''_'' (BylawsRequest.company_name bylaws_data)
                          @ ''_bylaws.pdf''))) of
        Inr resp \<Rightarrow> Inr resp
      | Inl e \<Rightarrow>
          (if ''ValidationError'' \<notin> set module_globals then Inl (NameError ''ValidationError'')
           else if is_ValidationError e then Inr (JsonError (StrOf e) 400)
           else Inr (JsonError (Message ''An unexpected error occurred'') 500)))"

subsection \<open>Reference descriptions used in the statements below\<close>

text \<open>The MM-DD strings: a month number 01-12, a hyphen, a day number 01-31, every
  month paired with every day.\<close>

definition month_numbers :: "string list" where
  "month_numbers =
     [''01'', ''02'', ''03'', ''04'', ''05'', ''06'', ''07'', ''08'', ''09'', ''10'', ''11'', ''12'']"

definition day_numbers :: "string list" where
  "day_numbers =
     [''01'', ''02'', ''03'', ''04'', ''05'', ''06'', ''07'', ''08'', ''09'', ''10'',
      ''11'', ''12'', ''13'', ''14'', ''15'', ''16'', ''17'', ''18'', ''19'', ''20'',
      ''21'', ''22'', ''23'', ''24'', ''25'', ''26'', ''27'', ''28'', ''29'', ''30'', ''31'']"

definition mm_dd_strings :: "string set" where
  "mm_dd_strings = {m @ ''-'' @ d | m d. m \<in> set month_numbers \<and> d \<in> set day_numbers}"

text \<open>\<^verbatim>\<open>VALID_BYLAWS_DATA\<close> of \<^verbatim>\<open>test_company_formation.py\<close>.\<close>

definition VALID_BYLAWS_DATA :: bylaws_data where
  "VALID_BYLAWS_DATA =
     \<lparr>bd_company_name = Some ''Test Corporation'',
      bd_principal_office = Some ''123 Main St, Suite 100, San Francisco, CA 94105'',
      bd_fiscal_year_end = Some ''12-31'',
      bd_board_size = Some 5,
      bd_officer_titles = Some [''Chief Executive Officer'', ''Secretary'', ''Treasurer''],
      bd_annual_meeting_month = Some ''June'',
      bd_quorum_percentage = Some 51\<rparr>"

text \<open>An MM-DD string, alone or followed by one line feed.\<close>

definition mm_dd_optional_newline :: "string set" where
  "mm_dd_optional_newline = mm_dd_strings \<union> {u @ [CHR 0x0A] | u. u \<in> mm_dd_strings}"

text \<open>The x coordinates of the centred draws of a document, in drawing order.\<close>

fun centred_anchors :: "draw_op list \<Rightarrow> int list" where
  "centred_anchors [] = []"
| "centred_anchors (DrawCentredString x y s # rest) = x # centred_anchors rest"
| "centred_anchors (other # rest) = centred_anchors rest"

section \<open>Properties\<close>

subsection \<open>The matcher accepts the language of the expression\<close>

lemma nil_in_conc: "([] \<in> conc A B) = ([] \<in> A \<and> [] \<in> B)"
  by (auto simp: conc_def)

lemma cons_in_conc:
  "(c # w \<in> conc A B) =
     ((\<exists>u v. w = u @ v \<and> c # u \<in> A \<and> v \<in> B) \<or> ([] \<in> A \<and> c # w \<in> B))"
proof
  assume "c # w \<in> conc A B"
  then obtain x y where xy: "c # w = x @ y" "x \<in> A" "y \<in> B"
    by (auto simp: conc_def)
  show "(\<exists>u v. w = u @ v \<and> c # u \<in> A \<and> v \<in> B) \<or> ([] \<in> A \<and> c # w \<in> B)"
  proof (cases x)
    case Nil
    with xy show ?thesis by simp
  next
    case (Cons a u)
    with xy have "w = u @ y" "c # u \<in> A" by simp_all
    with xy(3) show ?thesis by blast
  qed
next
  assume "(\<exists>u v. w = u @ v \<and> c # u \<in> A \<and> v \<in> B) \<or> ([] \<in> A \<and> c # w \<in> B)"
  then show "c # w \<in> conc A B"
  proof
    assume "\<exists>u v. w = u @ v \<and> c # u \<in> A \<and> v \<in> B"
    then obtain u v where "w = u @ v" "c # u \<in> A" "v \<in> B" by blast
    then have "c # w = (c # u) @ v" by simp
    with \<open>c # u \<in> A\<close> \<open>v \<in> B\<close> show ?thesis unfolding conc_def by blast
  next
    assume "[] \<in> A \<and> c # w \<in> B"
    then have "c # w = [] @ (c # w)" "[] \<in> A" "c # w \<in> B" by simp_all
    then show ?thesis unfolding conc_def by blast
  qed
qed

lemma star_cons_split:
  "x \<in> star A \<Longrightarrow> x = c # w \<Longrightarrow> \<exists>u v. w = u @ v \<and> c # u \<in> A \<and> v \<in> star A"
proof (induction arbitrary: rule: star.induct)
  case star_empty
  then show ?case by simp
next
  case (star_more u v)
  show ?case
  proof (cases u)
    case Nil
    with star_more show ?thesis by simp
  next
    case (Cons a u')
    with star_more.prems have "w = u' @ v" "a = c" by simp_all
    with Cons star_more.hyps show ?thesis by blast
  qed
qed

lemma cons_in_star:
  "(c # w \<in> star A) = (\<exists>u v. w = u @ v \<and> c # u \<in> A \<and> v \<in> star A)"
proof
  assume "c # w \<in> star A"
  then show "\<exists>u v. w = u @ v \<and> c # u \<in> A \<and> v \<in> star A"
    by (rule star_cons_split) simp
next
  assume "\<exists>u v. w = u @ v \<and> c # u \<in> A \<and> v \<in> star A"
  then obtain u v where uv: "w = u @ v" "c # u \<in> A" "v \<in> star A" by blast
  then have "(c # u) @ v \<in> star A" by (intro star_more)
  with uv show "c # w \<in> star A" by simp
qed

lemma nullable_lang: "nullable r = ([] \<in> lang r)"
  by (induction r) (simp_all add: nil_in_conc star_empty)

lemma in_conc_deriv:
  assumes "\<And>w. (w \<in> lang (deriv c r)) = (c # w \<in> lang r)"
  shows "(w \<in> conc (lang (deriv c r)) B) = (\<exists>u v. w = u @ v \<and> c # u \<in> lang r \<and> v \<in> B)"
  using assms by (auto simp: conc_def)

lemma deriv_lang: "(w \<in> lang (deriv c r)) = (c # w \<in> lang r)"
proof (induction r arbitrary: w)
  case (Seq r s)
  have left: "(w \<in> conc (lang (deriv c r)) (lang s)) =
      (\<exists>u v. w = u @ v \<and> c # u \<in> lang r \<and> v \<in> lang s)"
    using Seq.IH(1) by (rule in_conc_deriv)
  show ?case
    by (simp add: cons_in_conc nullable_lang left Seq.IH(2))
next
  case (Star r)
  have "(w \<in> conc (lang (deriv c r)) (star (lang r))) =
      (\<exists>u v. w = u @ v \<and> c # u \<in> lang r \<and> v \<in> star (lang r))"
    using Star.IH by (rule in_conc_deriv)
  then show ?case
    by (simp add: cons_in_star)
qed (simp_all)

lemma matches_lang: "matches r w = (w \<in> lang r)"
  by (induction w arbitrary: r) (simp_all add: nullable_lang deriv_lang)

lemma re_match_anchored_lang: "re_match_anchored r v = (v \<in> anchored_lang r)"
proof -
  have "(v \<noteq> [] \<and> last v = CHR 0x0A \<and> butlast v \<in> lang r) = (\<exists>u. v = u @ [CHR 0x0A] \<and> u \<in> lang r)"
  proof
    assume a: "v \<noteq> [] \<and> last v = CHR 0x0A \<and> butlast v \<in> lang r"
    then have "v = butlast v @ [CHR 0x0A]" by (metis append_butlast_last_id)
    with a show "\<exists>u. v = u @ [CHR 0x0A] \<and> u \<in> lang r" by blast
  next
    assume "\<exists>u. v = u @ [CHR 0x0A] \<and> u \<in> lang r"
    then show "v \<noteq> [] \<and> last v = CHR 0x0A \<and> butlast v \<in> lang r" by auto
  qed
  then show ?thesis
    by (auto simp: re_match_anchored_def anchored_lang_def matches_lang)
qed

subsection \<open>The language of the fiscal year pattern\<close>

lemma digit_codes:
  "char_of (48::nat) = CHR ''0''" "char_of (49::nat) = CHR ''1''" "char_of (50::nat) = CHR ''2''"
  "char_of (51::nat) = CHR ''3''" "char_of (52::nat) = CHR ''4''" "char_of (53::nat) = CHR ''5''"
  "char_of (54::nat) = CHR ''6''" "char_of (55::nat) = CHR ''7''" "char_of (56::nat) = CHR ''8''"
  "char_of (57::nat) = CHR ''9''"
  by code_simp+

lemma char_between:
  assumes "lo \<le> (of_char c :: nat)" "(of_char c :: nat) \<le> hi"
  shows "c \<in> char_of ` {lo..hi}"
proof -
  have "(of_char c :: nat) \<in> {lo..hi}" using assms by simp
  then have "char_of (of_char c :: nat) \<in> char_of ` {lo..hi}" by (rule imageI)
  then show ?thesis by simp
qed

lemma range_1_9: "cls_match [Rg CHR ''1'' CHR ''9''] c = (c \<in> set ''123456789'')"
proof
  assume "cls_match [Rg CHR ''1'' CHR ''9''] c"
  then have "c \<in> char_of ` {49..57::nat}" by (intro char_between) (simp_all add: cls_match_def)
  also have "{49..57::nat} = {49, 50, 51, 52, 53, 54, 55, 56, 57}" by (simp add: atLeastAtMost_upt insert_commute)
  finally show "c \<in> set ''123456789''" by (auto simp: digit_codes)
next
  assume "c \<in> set ''123456789''"
  then show "cls_match [Rg CHR ''1'' CHR ''9''] c" by (auto simp: cls_match_def)
qed

lemma range_0_2: "cls_match [Rg CHR ''0'' CHR ''2''] c = (c \<in> set ''012'')"
proof
  assume "cls_match [Rg CHR ''0'' CHR ''2''] c"
  then have "c \<in> char_of ` {48..50::nat}" by (intro char_between) (simp_all add: cls_match_def)
  also have "{48..50::nat} = {48, 49, 50}" by (simp add: atLeastAtMost_upt insert_commute)
  finally show "c \<in> set ''012''" by (auto simp: digit_codes)
next
  assume "c \<in> set ''012''"
  then show "cls_match [Rg CHR ''0'' CHR ''2''] c" by (auto simp: cls_match_def)
qed

lemma range_0_9: "cls_match [Rg CHR ''0'' CHR ''9''] c = (c \<in> set ''0123456789'')"
proof
  assume "cls_match [Rg CHR ''0'' CHR ''9''] c"
  then have "c \<in> char_of ` {48..57::nat}" by (intro char_between) (simp_all add: cls_match_def)
  also have "{48..57::nat} = {48, 49, 50, 51, 52, 53, 54, 55, 56, 57}" by (simp add: atLeastAtMost_upt insert_commute)
  finally show "c \<in> set ''0123456789''" by (auto simp: digit_codes)
next
  assume "c \<in> set ''0123456789''"
  then show "cls_match [Rg CHR ''0'' CHR ''9''] c" by (auto simp: cls_match_def)
qed

lemma in_lang_Lit_Cls:
  "(w \<in> lang (Seq (Lit a) (Cls as))) = (\<exists>c. w = [a, c] \<and> cls_match as c)"
  by (auto simp: conc_def)

lemma in_lang_Cls_Cls:
  "(w \<in> lang (Seq (Cls as) (Cls bs))) = (\<exists>c d. w = [c, d] \<and> cls_match as c \<and> cls_match bs d)"
proof
  assume "w \<in> lang (Seq (Cls as) (Cls bs))"
  then show "\<exists>c d. w = [c, d] \<and> cls_match as c \<and> cls_match bs d"
    by (auto simp: conc_def)
next
  assume "\<exists>c d. w = [c, d] \<and> cls_match as c \<and> cls_match bs d"
  then obtain c d where cd: "w = [c] @ [d]" "cls_match as c" "cls_match bs d" by auto
  have "[c] \<in> lang (Cls as)" "[d] \<in> lang (Cls bs)" using cd by simp_all
  then have "[c] @ [d] \<in> conc (lang (Cls as)) (lang (Cls bs))" unfolding conc_def by blast
  then show "w \<in> lang (Seq (Cls as) (Cls bs))" using cd(1) by simp
qed

lemma cls_1_2: "cls_match [Ch CHR ''1'', Ch CHR ''2''] c = (c \<in> set ''12'')"
  by (auto simp: cls_match_def)

lemma cls_0_1: "cls_match [Ch CHR ''0'', Ch CHR ''1''] c = (c \<in> set ''01'')"
  by (auto simp: cls_match_def)

lemma month_0x: "c \<in> set ''123456789'' \<Longrightarrow> [CHR ''0'', c] \<in> set month_numbers"
proof -
  have "list_all (\<lambda>c. [CHR ''0'', c] \<in> set month_numbers) ''123456789''"
    by (simp add: month_numbers_def)
  then show "c \<in> set ''123456789'' \<Longrightarrow> [CHR ''0'', c] \<in> set month_numbers"
    unfolding list_all_iff by blast
qed

lemma month_1x: "c \<in> set ''012'' \<Longrightarrow> [CHR ''1'', c] \<in> set month_numbers"
proof -
  have "list_all (\<lambda>c. [CHR ''1'', c] \<in> set month_numbers) ''012''"
    by (simp add: month_numbers_def)
  then show "c \<in> set ''012'' \<Longrightarrow> [CHR ''1'', c] \<in> set month_numbers"
    unfolding list_all_iff by blast
qed

lemma month_sub: "w \<in> lang month_re \<Longrightarrow> w \<in> set month_numbers"
  unfolding month_re_def lang.simps(6) Un_iff in_lang_Lit_Cls range_1_9 range_0_2
  using month_0x month_1x by blast

lemma month_all: "list_all (matches month_re) month_numbers"
  by (simp add: month_re_def month_numbers_def cls_match_def)

lemma lang_month: "lang month_re = set month_numbers"
  using month_sub month_all unfolding list_all_iff matches_lang by blast

lemma day_0x: "c \<in> set ''123456789'' \<Longrightarrow> [CHR ''0'', c] \<in> set day_numbers"
proof -
  have "list_all (\<lambda>c. [CHR ''0'', c] \<in> set day_numbers) ''123456789''"
    by (simp add: day_numbers_def)
  then show "c \<in> set ''123456789'' \<Longrightarrow> [CHR ''0'', c] \<in> set day_numbers"
    unfolding list_all_iff by blast
qed

lemma day_12x: "c \<in> set ''12'' \<Longrightarrow> d \<in> set ''0123456789'' \<Longrightarrow> [c, d] \<in> set day_numbers"
proof -
  have "list_all (\<lambda>c. list_all (\<lambda>d. [c, d] \<in> set day_numbers) ''0123456789'') ''12''"
    by (simp add: day_numbers_def)
  then show "c \<in> set ''12'' \<Longrightarrow> d \<in> set ''0123456789'' \<Longrightarrow> [c, d] \<in> set day_numbers"
    unfolding list_all_iff by blast
qed

lemma day_3x: "c \<in> set ''01'' \<Longrightarrow> [CHR ''3'', c] \<in> set day_numbers"
proof -
  have "list_all (\<lambda>c. [CHR ''3'', c] \<in> set day_numbers) ''01''"
    by (simp add: day_numbers_def)
  then show "c \<in> set ''01'' \<Longrightarrow> [CHR ''3'', c] \<in> set day_numbers"
    unfolding list_all_iff by blast
qed

lemma day_sub: "w \<in> lang day_re \<Longrightarrow> w \<in> set day_numbers"
  unfolding day_re_def lang.simps(6) Un_iff in_lang_Lit_Cls in_lang_Cls_Cls range_1_9 range_0_9 cls_1_2 cls_0_1
  using day_0x day_12x day_3x by blast

lemma day_all: "list_all (matches day_re) day_numbers"
  by (simp add: day_re_def day_numbers_def cls_match_def)

lemma lang_day: "lang day_re = set day_numbers"
  using day_sub day_all unfolding list_all_iff matches_lang by blast

lemma lang_fiscal: "lang fiscal_year_end_re = mm_dd_strings"
  unfolding fiscal_year_end_re_def lang.simps(5) lang.simps(3) lang_month lang_day
  by (auto simp: conc_def mm_dd_strings_def)

subsection \<open>Validation of \<^verbatim>\<open>fiscal_year_end\<close>\<close>

lemma fiscal_examples_accepted:
  "list_all (\<lambda>v. validate_fiscal_year_end v = Inr v) [''12-31'', ''01-01'', ''02-30'']"
  by (simp add: validate_fiscal_year_end_def re_match_anchored_def fiscal_year_end_re_def
      month_re_def day_re_def cls_match_def)

lemma fiscal_examples_rejected:
  "list_all (\<lambda>v. validate_fiscal_year_end v = Inl ''Fiscal year end must be in MM-DD format'')
     [''13-31'', ''00-10'', ''12-00'', ''12-32'', ''1231'', ''12/31'', ''1-1'', ''12-31-'', []]"
  by (simp add: validate_fiscal_year_end_def re_match_anchored_def fiscal_year_end_re_def
      month_re_def day_re_def cls_match_def)

lemma fiscal_trailing_newline:
  "validate_fiscal_year_end (''12-31'' @ [CHR 0x0A]) = Inr (''12-31'' @ [CHR 0x0A])"
  by (simp add: validate_fiscal_year_end_def re_match_anchored_def fiscal_year_end_re_def
      month_re_def day_re_def cls_match_def)

lemma mm_dd_optional_newline_lang: "anchored_lang fiscal_year_end_re = mm_dd_optional_newline"
  by (simp add: anchored_lang_def mm_dd_optional_newline_def lang_fiscal)

lemma validate_fiscal_year_end_accepts:
  "validate_fiscal_year_end v =
     (if v \<in> mm_dd_optional_newline then Inr v
      else Inl ''Fiscal year end must be in MM-DD format'')"
  by (simp add: validate_fiscal_year_end_def re_match_anchored_lang mm_dd_optional_newline_lang)

lemma mm_dd_length: "v \<in> mm_dd_strings \<Longrightarrow> length v = 5"
proof -
  have "list_all (\<lambda>m. length m = 2) month_numbers" "list_all (\<lambda>d. length d = 2) day_numbers"
    by (simp_all add: month_numbers_def day_numbers_def)
  then have "\<And>m. m \<in> set month_numbers \<Longrightarrow> length m = 2"
    and "\<And>d. d \<in> set day_numbers \<Longrightarrow> length d = 2"
    unfolding list_all_iff by blast+
  then show "v \<in> mm_dd_strings \<Longrightarrow> length v = 5"
    by (auto simp: mm_dd_strings_def)
qed

subsection \<open>The canvas\<close>

lemma ops_apply_op: "ops (apply_op c call) = ops c @ [call]"
  by (cases call) (simp_all add: setFont_def drawString_def drawCentredString_def)

lemma pagesize_apply_op: "pagesize (apply_op c call) = pagesize c"
  by (cases call) (simp_all add: setFont_def drawString_def drawCentredString_def)

lemma ops_draw: "ops (draw c calls) = ops c @ calls"
  unfolding draw_def by (induction calls arbitrary: c) (simp_all add: ops_apply_op)

lemma pagesize_draw: "pagesize (draw c calls) = pagesize c"
  unfolding draw_def by (induction calls arbitrary: c) (simp_all add: pagesize_apply_op)

lemma officer_lines_shift:
  "map (\<lambda>(k, title). DrawString 70 (y - 20 * int k) (''- '' @ title)) (enumerate (Suc 0) titles) =
   map (\<lambda>(k, title). DrawString 70 (y - 20 - 20 * int k) (''- '' @ title)) (enumerate 0 titles)"
  by (simp add: enumerate_Suc_eq case_prod_beta algebra_simps)

lemma officers_loop_result:
  "officers_loop c y titles =
     (c\<lparr>ops := ops c @
          map (\<lambda>(k, title). DrawString 70 (y - 20 * int k) (''- '' @ title)) (enumerate 0 titles)\<rparr>,
      y - 20 * int (length titles))"
proof (induction titles arbitrary: c y)
  case Nil
  show ?case by simp
next
  case (Cons title titles)
  have shift:
    "map (\<lambda>(k, title). DrawString 70 (y - 20 - 20 * int k) (''- '' @ title)) (enumerate 0 titles) =
     map (\<lambda>(k, title). DrawString 70 (y - 20 * int k) (''- '' @ title)) (enumerate (Suc 0) titles)"
    by (rule officer_lines_shift[symmetric])
  show ?case
    unfolding officers_loop.simps Cons.IH shift by (simp add: drawString_def)
qed

subsection \<open>The bylaws layout\<close>

lemma enumerate_empty: "(enumerate n xs = []) = (xs = [])"
  by (cases xs) simp_all

lemma last_enumerate:
  "xs \<noteq> [] \<Longrightarrow> last (enumerate n xs) = (n + length xs - 1, last xs)"
  by (induction xs arbitrary: n) (auto simp: enumerate_empty)

lemma last_officer_line:
  assumes "titles \<noteq> []"
  shows "last (map (\<lambda>(k, title). DrawString 70 (360 - 20 * int k) (''- '' @ title))
                 (enumerate 0 titles)) =
         DrawString 70 (380 - 20 * int (length titles)) (''- '' @ last titles)"
proof -
  from assms have "enumerate 0 titles \<noteq> []" by (cases titles) simp_all
  then have "last (map (\<lambda>(k, title). DrawString 70 (360 - 20 * int k) (''- '' @ title))
                 (enumerate 0 titles)) =
        (\<lambda>(k, title). DrawString 70 (360 - 20 * int k) (''- '' @ title))
          (last (enumerate 0 titles))"
    by (rule last_map)
  also have "\<dots> = DrawString 70 (360 - 20 * int (length titles - 1)) (''- '' @ last titles)"
    using assms by (simp add: last_enumerate)
  also have "360 - 20 * int (length titles - 1) = 380 - 20 * int (length titles)"
    using assms by (cases titles) simp_all
  finally show ?thesis .
qed

text \<open>
  C2, as the code has it. For officer_titles of any length n, the bylaws document draws,
  right after the line "1. Officers. ...", one line per title, in order, each the title
  prefixed with "- ", the k-th (counting from 0) at x = 70, y = 360 - 20k; then the
  ARTICLE V - FISCAL YEAR heading at y = 360 - 20n - 20, computed from the end of the
  list. The running coordinate is lowered once more after the last title, so for n of at
  least 1 the last officer line is at y = 380 - 20n and the heading is 40pt below it.
\<close>

theorem bylaws_officer_lines_and_article_v:
  "ops (generate_bylaws b) ! 23 =
     DrawString 50 380 ''1. Officers. The officers of the corporation shall be:''
   \<and> drop 24 (ops (generate_bylaws b)) =
     map (\<lambda>(k, title). DrawString 70 (360 - 20 * int k) (''- '' @ title))
       (enumerate 0 (officer_titles b))
     @ [SetFont ''Helvetica-Bold'' 14,
        DrawString 50 (360 - 20 * int (length (officer_titles b)) - 20) ''ARTICLE V - FISCAL YEAR'',
        SetFont ''Helvetica'' 12,
        DrawString 50 (360 - 20 * int (length (officer_titles b)) - 40)
          (''The fiscal year of the corporation shall end on '' @ fiscal_year_end b),
        DrawString 50 (360 - 20 * int (length (officer_titles b)) - 60) ''of each year.'']
   \<and> (officer_titles b \<noteq> [] \<longrightarrow>
        last (map (\<lambda>(k, title). DrawString 70 (360 - 20 * int k) (''- '' @ title))
                (enumerate 0 (officer_titles b))) =
          DrawString 70 (380 - 20 * int (length (officer_titles b)))
            (''- '' @ last (officer_titles b))
        \<and> 360 - 20 * int (length (officer_titles b)) - 20 =
          380 - 20 * int (length (officer_titles b)) - 40)"
proof -
  have layout: "ops (generate_bylaws b) ! 23 =
     DrawString 50 380 ''1. Officers. The officers of the corporation shall be:''
   \<and> drop 24 (ops (generate_bylaws b)) =
     map (\<lambda>(k, title). DrawString 70 (360 - 20 * int k) (''- '' @ title))
       (enumerate 0 (officer_titles b))
     @ [SetFont ''Helvetica-Bold'' 14,
        DrawString 50 (360 - 20 * int (length (officer_titles b)) - 20) ''ARTICLE V - FISCAL YEAR'',
        SetFont ''Helvetica'' 12,
        DrawString 50 (360 - 20 * int (length (officer_titles b)) - 40)
          (''The fiscal year of the corporation shall end on '' @ fiscal_year_end b),
        DrawString 50 (360 - 20 * int (length (officer_titles b)) - 60) ''of each year.'']"
    by (simp add: generate_bylaws_def officers_loop_result ops_draw Canvas_def)
  have gap: "officer_titles b \<noteq> [] \<longrightarrow>
        last (map (\<lambda>(k, title). DrawString 70 (360 - 20 * int k) (''- '' @ title))
                (enumerate 0 (officer_titles b))) =
          DrawString 70 (380 - 20 * int (length (officer_titles b)))
            (''- '' @ last (officer_titles b))
        \<and> 360 - 20 * int (length (officer_titles b)) - 20 =
          380 - 20 * int (length (officer_titles b)) - 40"
    using last_officer_line[of "officer_titles b"] by simp
  from layout gap show ?thesis by blast
qed

text \<open>The record of the repository's test with twenty officers: the last title is drawn at
  y = -20 and the heading of ARTICLE V at y = -60.\<close>

theorem bylaws_twenty_officers:
  "drop 24 (ops (generate_bylaws
      \<lparr>BylawsRequest.company_name = ''Maximal Corp'',
       principal_office = ''Very Long Address, Suite 1000000, Maximum City, Maximum State, 99999'',
       fiscal_year_end = ''12-31'',
       board_size = 99,
       officer_titles =
         [''Officer 0'', ''Officer 1'', ''Officer 2'', ''Officer 3'', ''Officer 4'',
          ''Officer 5'', ''Officer 6'', ''Officer 7'', ''Officer 8'', ''Officer 9'',
          ''Officer 10'', ''Officer 11'', ''Officer 12'', ''Officer 13'', ''Officer 14'',
          ''Officer 15'', ''Officer 16'', ''Officer 17'', ''Officer 18'', ''Officer 19''],
       annual_meeting_month = ''December'',
       quorum_percentage = 100\<rparr>)) =
     [DrawString 70 360 ''- Officer 0'', DrawString 70 340 ''- Officer 1'',
      DrawString 70 320 ''- Officer 2'', DrawString 70 300 ''- Officer 3'',
      DrawString 70 280 ''- Officer 4'', DrawString 70 260 ''- Officer 5'',
      DrawString 70 240 ''- Officer 6'', DrawString 70 220 ''- Officer 7'',
      DrawString 70 200 ''- Officer 8'', DrawString 70 180 ''- Officer 9'',
      DrawString 70 160 ''- Officer 10'', DrawString 70 140 ''- Officer 11'',
      DrawString 70 120 ''- Officer 12'', DrawString 70 100 ''- Officer 13'',
      DrawString 70 80 ''- Officer 14'', DrawString 70 60 ''- Officer 15'',
      DrawString 70 40 ''- Officer 16'', DrawString 70 20 ''- Officer 17'',
      DrawString 70 0 ''- Officer 18'', DrawString 70 (- 20) ''- Officer 19'',
      SetFont ''Helvetica-Bold'' 14,
      DrawString 50 (- 60) ''ARTICLE V - FISCAL YEAR'',
      SetFont ''Helvetica'' 12,
      DrawString 50 (- 80) ''The fiscal year of the corporation shall end on 12-31'',
      DrawString 50 (- 100) ''of each year.'']"
  using bylaws_officer_lines_and_article_v
    [of "\<lparr>BylawsRequest.company_name = ''Maximal Corp'',
       principal_office = ''Very Long Address, Suite 1000000, Maximum City, Maximum State, 99999'',
       fiscal_year_end = ''12-31'',
       board_size = 99,
       officer_titles =
         [''Officer 0'', ''Officer 1'', ''Officer 2'', ''Officer 3'', ''Officer 4'',
          ''Officer 5'', ''Officer 6'', ''Officer 7'', ''Officer 8'', ''Officer 9'',
          ''Officer 10'', ''Officer 11'', ''Officer 12'', ''Officer 13'', ''Officer 14'',
          ''Officer 15'', ''Officer 16'', ''Officer 17'', ''Officer 18'', ''Officer 19''],
       annual_meeting_month = ''December'',
       quorum_percentage = 100\<rparr>"]
  by (simp add: enumerate_eq_zip upt_rec_numeral)

text \<open>The minimal record of the repository's tests, with the single officer President: it
  is valid, the officer line is drawn at y = 360 and the heading of ARTICLE V at y = 320,
  not at 340.\<close>

theorem article_v_is_40pt_below_the_last_officer_line:
  "BylawsRequest_new
     \<lparr>bd_company_name = Some ''Minimal Corp'', bd_principal_office = Some ''1 Main St'',
      bd_fiscal_year_end = Some ''01-01'', bd_board_size = Some 1,
      bd_officer_titles = Some [''President''], bd_annual_meeting_month = Some ''January'',
      bd_quorum_percentage = Some 0\<rparr> =
   Inr \<lparr>BylawsRequest.company_name = ''Minimal Corp'', principal_office = ''1 Main St'',
        fiscal_year_end = ''01-01'', board_size = 1, officer_titles = [''President''],
        annual_meeting_month = ''January'', quorum_percentage = 0\<rparr>
   \<and> drop 24 (ops (generate_bylaws
        \<lparr>BylawsRequest.company_name = ''Minimal Corp'', principal_office = ''1 Main St'',
         fiscal_year_end = ''01-01'', board_size = 1, officer_titles = [''President''],
         annual_meeting_month = ''January'', quorum_percentage = 0\<rparr>)) =
     [DrawString 70 360 ''- President'',
      SetFont ''Helvetica-Bold'' 14,
      DrawString 50 320 ''ARTICLE V - FISCAL YEAR'',
      SetFont ''Helvetica'' 12,
      DrawString 50 300 ''The fiscal year of the corporation shall end on 01-01'',
      DrawString 50 280 ''of each year.'']
   \<and> (320::int) \<noteq> 360 - 20"
proof -
  have name: "validate_company_name ''Minimal Corp'' = Inr ''Minimal Corp''"
    by (simp add: validate_company_name_def re_match_anchored_def company_name_re_def Plus_def
        cls_match_def is_space_def)
  have fiscal: "validate_fiscal_year_end ''01-01'' = Inr ''01-01''"
    using fiscal_examples_accepted by simp
  have month: "validate_annual_meeting_month ''January'' = Inr ''January''"
    by (simp add: validate_annual_meeting_month_def months_def)
  have validated: "BylawsRequest_new
     \<lparr>bd_company_name = Some ''Minimal Corp'', bd_principal_office = Some ''1 Main St'',
      bd_fiscal_year_end = Some ''01-01'', bd_board_size = Some 1,
      bd_officer_titles = Some [''President''], bd_annual_meeting_month = Some ''January'',
      bd_quorum_percentage = Some 0\<rparr> =
   Inr \<lparr>BylawsRequest.company_name = ''Minimal Corp'', principal_office = ''1 Main St'',
        fiscal_year_end = ''01-01'', board_size = 1, officer_titles = [''President''],
        annual_meeting_month = ''January'', quorum_percentage = 0\<rparr>"
    by (simp add: BylawsRequest_new_def Let_def required_def and_then_def validator_def ge_def
        le_def name fiscal month)
  have drawn: "drop 24 (ops (generate_bylaws
        \<lparr>BylawsRequest.company_name = ''Minimal Corp'', principal_office = ''1 Main St'',
         fiscal_year_end = ''01-01'', board_size = 1, officer_titles = [''President''],
         annual_meeting_month = ''January'', quorum_percentage = 0\<rparr>)) =
     [DrawString 70 360 ''- President'',
      SetFont ''Helvetica-Bold'' 14,
      DrawString 50 320 ''ARTICLE V - FISCAL YEAR'',
      SetFont ''Helvetica'' 12,
      DrawString 50 300 ''The fiscal year of the corporation shall end on 01-01'',
      DrawString 50 280 ''of each year.'']"
    by (simp add: generate_bylaws_def officers_loop_result ops_draw Canvas_def)
  from validated drawn show ?thesis by simp
qed

subsection \<open>The generated documents\<close>

lemma centred_anchors_append:
  "centred_anchors (xs @ ys) = centred_anchors xs @ centred_anchors ys"
  by (induction xs rule: centred_anchors.induct) simp_all

lemma centred_anchors_officer_lines:
  "centred_anchors (map (\<lambda>(k, title). DrawString x (f k) (g title)) kts) = []"
  by (induction kts) (simp_all add: case_prod_beta)

lemma ops_delaware_articles:
  "ops (generate_delaware_articles now cd) ! 1 =
     DrawCentredString 300 750 ''CERTIFICATE OF INCORPORATION''"
  by (simp add: generate_delaware_articles_def ops_draw Canvas_def)

lemma ops_delaware_llc:
  "ops (generate_delaware_llc_certificate now cd) ! 1 =
     DrawCentredString 300 750 ''CERTIFICATE OF FORMATION''"
  by (simp add: generate_delaware_llc_certificate_def ops_draw Canvas_def)

lemma ops_california_articles:
  "ops (generate_california_articles now cd) ! 1 =
     DrawCentredString 300 750 ''ARTICLES OF INCORPORATION''"
  by (simp add: generate_california_articles_def ops_draw Canvas_def)

lemma ops_california_llc:
  "ops (generate_california_llc_certificate now cd) ! 1 =
     DrawCentredString 300 750 ''ARTICLES OF ORGANIZATION''"
  by (simp add: generate_california_llc_certificate_def ops_draw Canvas_def)

lemma formation_documents_distinct:
  "distinct [generate_delaware_articles now cd, generate_delaware_llc_certificate now cd,
             generate_california_articles now cd, generate_california_llc_certificate now cd]"
proof -
  have a: "generate_delaware_articles now cd \<noteq> generate_delaware_llc_certificate now cd"
    using ops_delaware_articles[of now cd] ops_delaware_llc[of now cd] by auto
  have b: "generate_delaware_articles now cd \<noteq> generate_california_articles now cd"
    using ops_delaware_articles[of now cd] ops_california_articles[of now cd] by auto
  have c: "generate_delaware_articles now cd \<noteq> generate_california_llc_certificate now cd"
    using ops_delaware_articles[of now cd] ops_california_llc[of now cd] by auto
  have d: "generate_delaware_llc_certificate now cd \<noteq> generate_california_articles now cd"
    using ops_delaware_llc[of now cd] ops_california_articles[of now cd] by auto
  have e: "generate_delaware_llc_certificate now cd \<noteq> generate_california_llc_certificate now cd"
    using ops_delaware_llc[of now cd] ops_california_llc[of now cd] by auto
  have f: "generate_california_articles now cd \<noteq> generate_california_llc_certificate now cd"
    using ops_california_articles[of now cd] ops_california_llc[of now cd] by auto
  from a b c d e f show ?thesis by simp
qed

subsection \<open>Centred text\<close>

text \<open>
  C8, as the code has it. Every centred draw of every generated document (the title of
  each of the four formation documents, the two title lines of the bylaws) is anchored at
  x = 300 on a page 612pt wide and 792pt high, that is 6pt left of the page's
  horizontal midpoint 306.
\<close>

theorem centred_draws_anchored_at_300:
  "centred_anchors (ops (generate_delaware_articles now cd)) = [300]
   \<and> centred_anchors (ops (generate_delaware_llc_certificate now cd)) = [300]
   \<and> centred_anchors (ops (generate_california_articles now cd)) = [300]
   \<and> centred_anchors (ops (generate_california_llc_certificate now cd)) = [300]
   \<and> centred_anchors (ops (generate_bylaws b)) = [300, 300]
   \<and> pagesize (generate_delaware_articles now cd) = (612, 792)
   \<and> pagesize (generate_delaware_llc_certificate now cd) = (612, 792)
   \<and> pagesize (generate_california_articles now cd) = (612, 792)
   \<and> pagesize (generate_california_llc_certificate now cd) = (612, 792)
   \<and> pagesize (generate_bylaws b) = (612, 792)"
proof -
  have 1: "centred_anchors (ops (generate_delaware_articles now cd)) = [300]"
    by (simp add: generate_delaware_articles_def ops_draw Canvas_def)
  have 2: "centred_anchors (ops (generate_delaware_llc_certificate now cd)) = [300]"
    by (simp add: generate_delaware_llc_certificate_def ops_draw Canvas_def)
  have 3: "centred_anchors (ops (generate_california_articles now cd)) = [300]"
    by (simp add: generate_california_articles_def ops_draw Canvas_def)
  have 4: "centred_anchors (ops (generate_california_llc_certificate now cd)) = [300]"
    by (simp add: generate_california_llc_certificate_def ops_draw Canvas_def)
  have 5: "centred_anchors (ops (generate_bylaws b)) = [300, 300]"
    by (simp add: generate_bylaws_def officers_loop_result ops_draw Canvas_def
        centred_anchors_append centred_anchors_officer_lines)
  have 6: "pagesize (generate_delaware_articles now cd) = (612, 792)"
    by (simp add: generate_delaware_articles_def pagesize_draw Canvas_def letter_def)
  have 7: "pagesize (generate_delaware_llc_certificate now cd) = (612, 792)"
    by (simp add: generate_delaware_llc_certificate_def pagesize_draw Canvas_def letter_def)
  have 8: "pagesize (generate_california_articles now cd) = (612, 792)"
    by (simp add: generate_california_articles_def pagesize_draw Canvas_def letter_def)
  have 9: "pagesize (generate_california_llc_certificate now cd) = (612, 792)"
    by (simp add: generate_california_llc_certificate_def pagesize_draw Canvas_def letter_def)
  have 10: "pagesize (generate_bylaws b) = (612, 792)"
    by (simp add: generate_bylaws_def Let_def officers_loop_result pagesize_draw Canvas_def
        letter_def)
  from 1 2 3 4 5 6 7 8 9 10 show ?thesis by simp
qed

text \<open>The Delaware certificate of incorporation for the first example record of the schema
  endpoint: its only centred draw is anchored at 300, and half the page width is 306.\<close>

theorem centred_title_anchor_is_not_the_midpoint:
  "centred_anchors (ops (generate_delaware_articles
      (\<lparr>year = 2025, month_of = March, day = 7\<rparr>, \<lparr>year = 2025, month_of = March, day = 7\<rparr>)
      \<lparr>CompanyFormation.company_name = ''Acme Corp, Inc.'', state_of_formation = ''DE'',
       company_type = ''corporation'', incorporator_name = ''John Smith''\<rparr>)) = [300]
   \<and> fst (pagesize (generate_delaware_articles
      (\<lparr>year = 2025, month_of = March, day = 7\<rparr>, \<lparr>year = 2025, month_of = March, day = 7\<rparr>)
      \<lparr>CompanyFormation.company_name = ''Acme Corp, Inc.'', state_of_formation = ''DE'',
       company_type = ''corporation'', incorporator_name = ''John Smith''\<rparr>)) div 2 = 306"
  by (simp add: generate_delaware_articles_def ops_draw pagesize_draw Canvas_def letter_def)

subsection \<open>What the validators of \<^verbatim>\<open>BylawsRequest\<close> enforce\<close>

text \<open>
  The company name pattern accepts the non-empty strings over its character class (a
  final newline is itself white space of the class). \<^verbatim>\<open>validate_state\<close> accepts each
  of its 56 codes, upper-cases a code given in another case and rejects other strings. A
  validated bylaws record satisfies every validator and bound of its class.
\<close>

lemma star_of_chars:
  "(w \<in> star {[c] | c. P c}) = list_all P w"
proof
  assume "w \<in> star {[c] | c. P c}"
  then show "list_all P w"
    by (induction rule: star.induct) auto
next
  assume "list_all P w"
  then show "w \<in> star {[c] | c. P c}"
  proof (induction w)
    case Nil
    show ?case by (rule star_empty)
  next
    case (Cons c w)
    then have "[c] \<in> {[c] | c. P c}" "w \<in> star {[c] | c. P c}" by simp_all
    then have "[c] @ w \<in> star {[c] | c. P c}" by (rule star_more)
    then show ?case by simp
  qed
qed

lemma lang_Plus_Cls:
  "(w \<in> lang (Plus (Cls as))) = (w \<noteq> [] \<and> list_all (cls_match as) w)"
proof -
  have "(w \<in> conc {[c] | c. cls_match as c} (star {[c] | c. cls_match as c})) =
        (\<exists>c u. w = c # u \<and> cls_match as c \<and> u \<in> star {[c] | c. cls_match as c})"
  proof
    assume "w \<in> conc {[c] | c. cls_match as c} (star {[c] | c. cls_match as c})"
    then show "\<exists>c u. w = c # u \<and> cls_match as c \<and> u \<in> star {[c] | c. cls_match as c}"
      by (auto simp: conc_def)
  next
    assume "\<exists>c u. w = c # u \<and> cls_match as c \<and> u \<in> star {[c] | c. cls_match as c}"
    then obtain c u where cu: "w = [c] @ u" "cls_match as c" "u \<in> star {[c] | c. cls_match as c}"
      by auto
    then have "[c] \<in> {[c] | c. cls_match as c}" by simp
    with cu show "w \<in> conc {[c] | c. cls_match as c} (star {[c] | c. cls_match as c})"
      unfolding conc_def by blast
  qed
  also have "\<dots> = (\<exists>c u. w = c # u \<and> cls_match as c \<and> list_all (cls_match as) u)"
    by (simp only: star_of_chars)
  also have "\<dots> = (w \<noteq> [] \<and> list_all (cls_match as) w)"
    by (cases w) auto
  finally show ?thesis by (simp add: Plus_def)
qed

lemma newline_in_company_name_class:
  "cls_match [Rg CHR ''a'' CHR ''z'', Rg CHR ''A'' CHR ''Z'', Rg CHR ''0'' CHR ''9'', Ws,
                Ch CHR '','', Ch CHR ''.'', Ch CHR 0x27, Ch CHR ''&''] (CHR 0x0A)"
  by (simp add: cls_match_def is_space_def)

lemma company_name_accepted:
  "(v \<in> anchored_lang company_name_re) =
     (v \<noteq> [] \<and>
      list_all (cls_match [Rg CHR ''a'' CHR ''z'', Rg CHR ''A'' CHR ''Z'', Rg CHR ''0'' CHR ''9'',
                  Ws, Ch CHR '','', Ch CHR ''.'', Ch CHR 0x27, Ch CHR ''&'']) v)"
  unfolding anchored_lang_def company_name_re_def
  using newline_in_company_name_class by (auto simp: lang_Plus_Cls)

lemma validate_company_name_charset:
  "validate_company_name v =
     (if v \<noteq> [] \<and>
         list_all (cls_match [Rg CHR ''a'' CHR ''z'', Rg CHR ''A'' CHR ''Z'', Rg CHR ''0'' CHR ''9'',
                     Ws, Ch CHR '','', Ch CHR ''.'', Ch CHR 0x27, Ch CHR ''&'']) v
      then Inr v
      else Inl ''Company name can only contain alphanumeric characters, spaces, commas, periods, apostrophes, and ampersands'')"
  using company_name_accepted[of v]
  by (simp add: validate_company_name_def re_match_anchored_lang)

lemma states_56: "length states = 56"
  by (simp add: states_def)

lemma states_distinct: "distinct states"
  by code_simp

lemma validate_state_on_codes: "list_all (\<lambda>s. validate_state s = Inr s) states"
  by code_simp

lemma validate_state_examples:
  "list_all (\<lambda>s. validate_state s = Inr (upper s)) [''de'', ''Ca'', ''nY'', ''pr'']
   \<and> list_all (\<lambda>s. validate_state s = Inl ''Invalid US state or territory'')
        [''XX'', ''D'', ''DEL'', ''Delaware'', []]"
  by code_simp

lemma and_then_Inr: "(and_then r f = Inr v) = (\<exists>u. r = Inr u \<and> f u = Inr v)"
  by (cases r) (simp_all add: and_then_def)

lemma required_Inr: "(required x = Inr v) = (x = Some v)"
  by (cases x) (simp_all add: required_def)

lemma validator_Inr: "(validator f u = Inr v) = (f u = Inr v)"
  by (cases "f u") (simp_all add: validator_def)

lemma seven_fields_Inr:
  "((case (cn, po, fy, bs, ot, am, qp) of
       (Inr a, Inr b, Inr c, Inr d, Inr e, Inr f, Inr g) \<Rightarrow> Inr (mk a b c d e f g)
     | _ \<Rightarrow> Inl err) = Inr r) =
   (\<exists>a b c d e f g. cn = Inr a \<and> po = Inr b \<and> fy = Inr c \<and> bs = Inr d \<and> ot = Inr e \<and>
      am = Inr f \<and> qp = Inr g \<and> r = mk a b c d e f g)"
  by (cases cn; cases po; cases fy; cases bs; cases ot; cases am; cases qp) auto

lemma BylawsRequest_new_validated:
  assumes "BylawsRequest_new data = Inr b"
  shows "validate_company_name (BylawsRequest.company_name b) = Inr (BylawsRequest.company_name b)
    \<and> validate_fiscal_year_end (fiscal_year_end b) = Inr (fiscal_year_end b)
    \<and> annual_meeting_month b \<in> set months
    \<and> 1 \<le> board_size b \<and> 0 \<le> quorum_percentage b \<and> quorum_percentage b \<le> 100"
proof -
  from assms obtain a c d f g where
    a: "and_then (required (bd_company_name data)) (validator validate_company_name) = Inr a"
    and c: "and_then (required (bd_fiscal_year_end data)) (validator validate_fiscal_year_end) = Inr c"
    and d: "and_then (required (bd_board_size data)) (ge 1) = Inr d"
    and f: "and_then (required (bd_annual_meeting_month data))
              (validator validate_annual_meeting_month) = Inr f"
    and g: "and_then (and_then (required (bd_quorum_percentage data)) (ge 0)) (le 100) = Inr g"
    and b: "BylawsRequest.company_name b = a" "fiscal_year_end b = c" "board_size b = d"
      "annual_meeting_month b = f" "quorum_percentage b = g"
    unfolding BylawsRequest_new_def Let_def seven_fields_Inr by auto
  from a have "validate_company_name a = Inr a"
    by (auto simp: and_then_Inr validator_Inr validate_company_name_def split: if_splits)
  moreover from c have "validate_fiscal_year_end c = Inr c"
    by (auto simp: and_then_Inr validator_Inr validate_fiscal_year_end_def split: if_splits)
  moreover from f have "f \<in> set months"
    by (auto simp: and_then_Inr validator_Inr validate_annual_meeting_month_def split: if_splits)
  moreover from d have "1 \<le> d"
    by (auto simp: and_then_Inr ge_def split: if_splits)
  moreover from g have "0 \<le> g \<and> g \<le> 100"
    by (auto simp: and_then_Inr ge_def le_def split: if_splits)
  ultimately show ?thesis using b by simp
qed

subsection \<open>Validation of \<^verbatim>\<open>fiscal_year_end\<close> by \<^verbatim>\<open>BylawsRequest\<close>\<close>

lemma VALID_BYLAWS_DATA_validated:
  "BylawsRequest_new VALID_BYLAWS_DATA =
   Inr \<lparr>BylawsRequest.company_name = ''Test Corporation'',
        principal_office = ''123 Main St, Suite 100, San Francisco, CA 94105'',
        fiscal_year_end = ''12-31'',
        board_size = 5,
        officer_titles = [''Chief Executive Officer'', ''Secretary'', ''Treasurer''],
        annual_meeting_month = ''June'',
        quorum_percentage = 51\<rparr>"
proof -
  have name: "validate_company_name ''Test Corporation'' = Inr ''Test Corporation''"
    by (simp add: validate_company_name_def re_match_anchored_def company_name_re_def Plus_def
        cls_match_def is_space_def)
  have fiscal: "validate_fiscal_year_end ''12-31'' = Inr ''12-31''"
    using fiscal_examples_accepted by simp
  have month: "validate_annual_meeting_month ''June'' = Inr ''June''"
    by (simp add: validate_annual_meeting_month_def months_def)
  show ?thesis
    by (simp add: VALID_BYLAWS_DATA_def BylawsRequest_new_def Let_def required_def and_then_def
        validator_def ge_def le_def name fiscal month)
qed

lemma field_errors_Inr: "field_errors name (Inr v) = []"
  by (simp add: field_errors_def)


lemma seven_fields_third_Inl:
  "(case (cn, po, Inl x, bs, ot, am, qp) of
       (Inr a, Inr b, Inr c, Inr d, Inr e, Inr f, Inr g) \<Rightarrow> Inr (mk a b c d e f g)
     | _ \<Rightarrow> Inl err) = Inl err"
  by (cases cn; cases po; cases bs; cases ot; cases am; cases qp) simp_all

lemma fiscal_year_end_refused:
  assumes "bd_fiscal_year_end data = Some v" and "v \<notin> mm_dd_optional_newline"
  shows "\<exists>errs. BylawsRequest_new data = Inl (ValidationError errs) \<and>
           (''fiscal_year_end'', Raised ''Fiscal year end must be in MM-DD format'') \<in> set errs"
proof -
  have fy: "and_then (required (bd_fiscal_year_end data)) (validator validate_fiscal_year_end) =
      Inl (Raised ''Fiscal year end must be in MM-DD format'')"
    using assms
    by (simp add: and_then_def required_def validator_def validate_fiscal_year_end_accepts)
  show ?thesis
    unfolding BylawsRequest_new_def Let_def fy seven_fields_third_Inl
    by (simp add: field_errors_def)
qed

text \<open>
  C5, as the code has it. Building a \<^verbatim>\<open>BylawsRequest\<close> from data that is valid in its
  other fields succeeds with fiscal_year_end v exactly when v is a month number 01-12, a
  hyphen and a day number 01-31, in any combination (the day is not checked against the
  month), alone or followed by one line feed, which \<^verbatim>\<open>$\<close> admits under \<^verbatim>\<open>re.match\<close>;
  with every other v, whatever the other fields hold, it fails with the error "Fiscal
  year end must be in MM-DD format" on fiscal_year_end. So 12-31, 01-01 and 02-30
  validate, as does 12-31 followed by a line feed; 13-31 and strings of another shape
  fail.
\<close>

theorem record_validation_of_fiscal_year_end:
  assumes "BylawsRequest_new data = Inr b"
  shows
    "BylawsRequest_new (data\<lparr>bd_fiscal_year_end := Some v\<rparr>) =
       (if v \<in> mm_dd_optional_newline then Inr (b\<lparr>fiscal_year_end := v\<rparr>)
        else Inl (ValidationError
               [(''fiscal_year_end'', Raised ''Fiscal year end must be in MM-DD format'')]))
     \<and> fiscal_year_end b \<in> mm_dd_optional_newline
     \<and> list_all (\<lambda>v. v \<in> mm_dd_optional_newline)
           [''12-31'', ''01-01'', ''02-30'', ''12-31'' @ [CHR 0x0A]]
     \<and> list_all (\<lambda>v. v \<notin> mm_dd_optional_newline)
           [''13-31'', ''00-10'', ''12-00'', ''12-32'', ''1231'', ''12/31'', ''1-1'', ''12-31-'', []]
     \<and> (bd_fiscal_year_end other = Some w \<and> w \<notin> mm_dd_optional_newline \<longrightarrow>
          (\<exists>errs. BylawsRequest_new other = Inl (ValidationError errs) \<and>
             (''fiscal_year_end'', Raised ''Fiscal year end must be in MM-DD format'') \<in> set errs))"
proof -
  from assms obtain a p c d e f g where
    a: "and_then (required (bd_company_name data)) (validator validate_company_name) = Inr a"
    and p: "required (bd_principal_office data) = Inr p"
    and c: "and_then (required (bd_fiscal_year_end data)) (validator validate_fiscal_year_end) = Inr c"
    and d: "and_then (required (bd_board_size data)) (ge 1) = Inr d"
    and e: "required (bd_officer_titles data) = Inr e"
    and f: "and_then (required (bd_annual_meeting_month data))
              (validator validate_annual_meeting_month) = Inr f"
    and g: "and_then (and_then (required (bd_quorum_percentage data)) (ge 0)) (le 100) = Inr g"
    and b: "b = \<lparr>BylawsRequest.company_name = a, principal_office = p, fiscal_year_end = c,
                  board_size = d, officer_titles = e, annual_meeting_month = f,
                  quorum_percentage = g\<rparr>"
    unfolding BylawsRequest_new_def Let_def seven_fields_Inr by auto
  have changed: "and_then (required (bd_fiscal_year_end (data\<lparr>bd_fiscal_year_end := Some v\<rparr>)))
          (validator validate_fiscal_year_end) =
        (if v \<in> mm_dd_optional_newline then Inr v
         else Inl (Raised ''Fiscal year end must be in MM-DD format''))"
    by (simp add: and_then_def required_def validator_def validate_fiscal_year_end_accepts)
  have first: "BylawsRequest_new (data\<lparr>bd_fiscal_year_end := Some v\<rparr>) =
       (if v \<in> mm_dd_optional_newline then Inr (b\<lparr>fiscal_year_end := v\<rparr>)
        else Inl (ValidationError
               [(''fiscal_year_end'', Raised ''Fiscal year end must be in MM-DD format'')]))"
    unfolding BylawsRequest_new_def Let_def changed
    by (simp add: a p d e f g b field_errors_def)
  from c have "validate_fiscal_year_end c = Inr c"
    by (auto simp: and_then_Inr validator_Inr validate_fiscal_year_end_def split: if_splits)
  then have second: "fiscal_year_end b \<in> mm_dd_optional_newline"
    by (simp add: validate_fiscal_year_end_accepts b split: if_splits)
  have third: "list_all (\<lambda>v. v \<in> mm_dd_optional_newline)
           [''12-31'', ''01-01'', ''02-30'', ''12-31'' @ [CHR 0x0A]]"
    using fiscal_examples_accepted fiscal_trailing_newline
    by (simp add: validate_fiscal_year_end_accepts split: if_splits)
  have fourth: "list_all (\<lambda>v. v \<notin> mm_dd_optional_newline)
           [''13-31'', ''00-10'', ''12-00'', ''12-32'', ''1231'', ''12/31'', ''1-1'', ''12-31-'', []]"
    using fiscal_examples_rejected
    by (simp add: validate_fiscal_year_end_accepts split: if_splits)
  have fifth: "bd_fiscal_year_end other = Some w \<and> w \<notin> mm_dd_optional_newline \<longrightarrow>
          (\<exists>errs. BylawsRequest_new other = Inl (ValidationError errs) \<and>
             (''fiscal_year_end'', Raised ''Fiscal year end must be in MM-DD format'') \<in> set errs)"
    using fiscal_year_end_refused[of other w] by blast
  from first second third fourth fifth show ?thesis by blast
qed

text \<open>At the valid bylaws data of the repository's tests: with 02-30 the record is built,
  with 13-31 it is refused, and with 1231 and no company name the errors include the one
  on fiscal_year_end.\<close>

theorem record_validation_of_fiscal_year_end_examples:
  "BylawsRequest_new (VALID_BYLAWS_DATA\<lparr>bd_fiscal_year_end := Some ''02-30''\<rparr>) =
     Inr \<lparr>BylawsRequest.company_name = ''Test Corporation'',
          principal_office = ''123 Main St, Suite 100, San Francisco, CA 94105'',
          fiscal_year_end = ''02-30'',
          board_size = 5,
          officer_titles = [''Chief Executive Officer'', ''Secretary'', ''Treasurer''],
          annual_meeting_month = ''June'',
          quorum_percentage = 51\<rparr>
   \<and> BylawsRequest_new (VALID_BYLAWS_DATA\<lparr>bd_fiscal_year_end := Some ''13-31''\<rparr>) =
     Inl (ValidationError
            [(''fiscal_year_end'', Raised ''Fiscal year end must be in MM-DD format'')])
   \<and> (\<exists>errs. BylawsRequest_new
              (VALID_BYLAWS_DATA\<lparr>bd_company_name := None, bd_fiscal_year_end := Some ''1231''\<rparr>) =
            Inl (ValidationError errs) \<and>
          (''fiscal_year_end'', Raised ''Fiscal year end must be in MM-DD format'') \<in> set errs)"
  using
    record_validation_of_fiscal_year_end [OF VALID_BYLAWS_DATA_validated, of "''02-30''"]
    record_validation_of_fiscal_year_end
      [OF VALID_BYLAWS_DATA_validated,
       where v = "''13-31''"
         and other = "VALID_BYLAWS_DATA\<lparr>bd_company_name := None,
                        bd_fiscal_year_end := Some ''1231''\<rparr>"
         and w = "''1231''"]
  by simp

text \<open>The valid bylaws data of the repository's tests with a line feed after 12-31: the
  record is built and holds the six-character string, which is not an MM-DD string.\<close>

theorem fiscal_year_end_with_a_final_newline_is_accepted:
  "BylawsRequest_new (VALID_BYLAWS_DATA\<lparr>bd_fiscal_year_end := Some (''12-31'' @ [CHR 0x0A])\<rparr>) =
     Inr \<lparr>BylawsRequest.company_name = ''Test Corporation'',
          principal_office = ''123 Main St, Suite 100, San Francisco, CA 94105'',
          fiscal_year_end = ''12-31'' @ [CHR 0x0A],
          board_size = 5,
          officer_titles = [''Chief Executive Officer'', ''Secretary'', ''Treasurer''],
          annual_meeting_month = ''June'',
          quorum_percentage = 51\<rparr>
   \<and> ''12-31'' @ [CHR 0x0A] \<notin> mm_dd_strings"
proof -
  have name: "validate_company_name ''Test Corporation'' = Inr ''Test Corporation''"
    by (simp add: validate_company_name_def re_match_anchored_def company_name_re_def Plus_def
        cls_match_def is_space_def)
  have month: "validate_annual_meeting_month ''June'' = Inr ''June''"
    by (simp add: validate_annual_meeting_month_def months_def)
  have built: "BylawsRequest_new
      (VALID_BYLAWS_DATA\<lparr>bd_fiscal_year_end := Some (''12-31'' @ [CHR 0x0A])\<rparr>) =
     Inr \<lparr>BylawsRequest.company_name = ''Test Corporation'',
          principal_office = ''123 Main St, Suite 100, San Francisco, CA 94105'',
          fiscal_year_end = ''12-31'' @ [CHR 0x0A],
          board_size = 5,
          officer_titles = [''Chief Executive Officer'', ''Secretary'', ''Treasurer''],
          annual_meeting_month = ''June'',
          quorum_percentage = 51\<rparr>"
    using fiscal_trailing_newline
    by (simp add: VALID_BYLAWS_DATA_def BylawsRequest_new_def Let_def required_def and_then_def
        validator_def ge_def le_def name month)
  have "length (''12-31'' @ [CHR 0x0A]) \<noteq> 5" by simp
  then have "''12-31'' @ [CHR 0x0A] \<notin> mm_dd_strings"
    using mm_dd_length by blast
  with built show ?thesis by simp
qed

subsection \<open>The formation model and its handler\<close>

lemma CompanyFormation_new_Inr:
  "CompanyFormation_new data = Inr cd \<longleftrightarrow>
     (\<exists>a b c d. fd_company_name data = Some a \<and> fd_state_of_formation data = Some b \<and>
        fd_company_type data = Some c \<and> (c = ''corporation'' \<or> c = ''LLC'') \<and>
        fd_incorporator_name data = Some d \<and>
        cd = \<lparr>CompanyFormation.company_name = a, state_of_formation = b,
              company_type = c, incorporator_name = d\<rparr>)"
  by (auto simp: CompanyFormation_new_def Let_def required_def and_then_def literal_def
      split: option.splits if_splits)

lemma company_type_literal:
  "CompanyFormation_new data = Inr cd \<Longrightarrow>
     company_type cd = ''corporation'' \<or> company_type cd = ''LLC''"
  by (auto simp: CompanyFormation_new_Inr)

lemma form_company_validated:
  assumes "CompanyFormation_new data = Inr cd"
    and "request = IsJson (JsonObject data) \<or> request = FormEncoded data"
  shows "form_company now request =
     (if state_of_formation cd = ''DE'' then
        (case send_file
                (if company_type cd = ''corporation'' then generate_delaware_articles now cd
                 else generate_delaware_llc_certificate now cd)
                ''application/pdf'' True (CompanyFormation.company_name cd @ ''_certificate.pdf'') of
           Inl e \<Rightarrow> JsonError (StrOf e) 400
         | Inr sent \<Rightarrow> sent)
      else if state_of_formation cd = ''CA'' then
        (case send_file
                (if company_type cd = ''corporation'' then generate_california_articles now cd
                 else generate_california_llc_certificate now cd)
                ''application/pdf'' True (CompanyFormation.company_name cd @ ''_certificate.pdf'') of
           Inl e \<Rightarrow> JsonError (StrOf e) 400
         | Inr sent \<Rightarrow> sent)
      else JsonError (Message ''Only Delaware and California entities are supported at this time'') 400)"
  using assms company_type_literal[OF assms(1)]
  by (auto simp: form_company_def unpack_def)

lemma form_company_rejected:
  assumes "CompanyFormation_new data = Inl e"
    and "request = IsJson (JsonObject data) \<or> request = FormEncoded data"
  shows "form_company now request = JsonError (StrOf e) 400"
  using assms by (auto simp: form_company_def unpack_def)

lemma form_company_not_object:
  "form_company now (IsJson JsonOther) = JsonError (StrOf TypeError) 400"
  by (simp add: form_company_def unpack_def)

lemma request_cases:
  obtains data where "request = IsJson (JsonObject data) \<or> request = FormEncoded data"
  | "request = IsJson JsonOther"
proof (cases request)
  case (IsJson body)
  then show ?thesis using that by (cases body) auto
next
  case (FormEncoded data)
  then show ?thesis using that by auto
qed

lemma form_company_never_unsupported_type:
  "form_company now request \<noteq> JsonError (Message ''Unsupported company type'') 400"
proof (cases request rule: request_cases)
  case (1 data)
  show ?thesis
  proof (cases "CompanyFormation_new data")
    case (Inl e)
    from form_company_rejected[OF Inl 1] show ?thesis by simp
  next
    case (Inr cd)
    from form_company_validated[OF Inr 1] show ?thesis
      by (simp add: send_file_def)
  qed
next
  case 2
  then show ?thesis by (simp add: form_company_not_object)
qed

text \<open>
  C10. A validated \<^verbatim>\<open>CompanyFormation\<close> record has company_type exactly "corporation" or
  "LLC"; any other string, also one that differs only in case, fails validation with an
  error on company_type; and no request makes \<^verbatim>\<open>form_company\<close> return the
  "Unsupported company type" error of its two inner else branches.
\<close>

theorem company_type_is_literal_so_no_unsupported_type:
  "(CompanyFormation_new data = Inr cd \<longrightarrow>
      company_type cd = ''corporation'' \<or> company_type cd = ''LLC'')
   \<and> (fd_company_type data = Some c \<and> c \<noteq> ''corporation'' \<and> c \<noteq> ''LLC'' \<longrightarrow>
      (\<exists>errs. CompanyFormation_new data = Inl (ValidationError errs) \<and>
         (''company_type'', NotPermitted) \<in> set errs))
   \<and> form_company now request \<noteq> JsonError (Message ''Unsupported company type'') 400"
proof -
  have "fd_company_type data = Some c \<and> c \<noteq> ''corporation'' \<and> c \<noteq> ''LLC'' \<longrightarrow>
      (\<exists>errs. CompanyFormation_new data = Inl (ValidationError errs) \<and>
         (''company_type'', NotPermitted) \<in> set errs)"
    by (auto simp: CompanyFormation_new_def Let_def required_def and_then_def literal_def
        field_errors_def split: option.splits sum.splits)
  then show ?thesis
    using company_type_literal[of data cd] form_company_never_unsupported_type[of now request]
    by blast
qed

theorem company_type_examples:
  "(company_type
     \<lparr>CompanyFormation.company_name = ''Smith & Sons, LLC'', state_of_formation = ''DE'',
      company_type = ''LLC'', incorporator_name = ''Jane Doe''\<rparr> = ''corporation''
    \<or> company_type
     \<lparr>CompanyFormation.company_name = ''Smith & Sons, LLC'', state_of_formation = ''DE'',
      company_type = ''LLC'', incorporator_name = ''Jane Doe''\<rparr> = ''LLC'')
   \<and> (\<exists>errs. CompanyFormation_new
       \<lparr>fd_company_name = Some ''Smith & Sons, LLC'', fd_state_of_formation = Some ''DE'',
        fd_company_type = Some ''llc'', fd_incorporator_name = Some ''Jane Doe''\<rparr> =
         Inl (ValidationError errs) \<and> (''company_type'', NotPermitted) \<in> set errs)
   \<and> form_company
       (\<lparr>year = 2025, month_of = March, day = 7\<rparr>, \<lparr>year = 2025, month_of = March, day = 7\<rparr>)
       (IsJson (JsonObject
         \<lparr>fd_company_name = Some ''Smith & Sons, LLC'', fd_state_of_formation = Some ''DE'',
          fd_company_type = Some ''llc'', fd_incorporator_name = Some ''Jane Doe''\<rparr>)) \<noteq>
     JsonError (Message ''Unsupported company type'') 400"
proof -
  have accepted: "CompanyFormation_new
      \<lparr>fd_company_name = Some ''Smith & Sons, LLC'', fd_state_of_formation = Some ''DE'',
       fd_company_type = Some ''LLC'', fd_incorporator_name = Some ''Jane Doe''\<rparr> =
    Inr \<lparr>CompanyFormation.company_name = ''Smith & Sons, LLC'', state_of_formation = ''DE'',
         company_type = ''LLC'', incorporator_name = ''Jane Doe''\<rparr>"
    by (simp add: CompanyFormation_new_def Let_def required_def and_then_def literal_def)
  have given: "fd_company_type
      \<lparr>fd_company_name = Some ''Smith & Sons, LLC'', fd_state_of_formation = Some ''DE'',
       fd_company_type = Some ''llc'', fd_incorporator_name = Some ''Jane Doe''\<rparr> = Some ''llc''
      \<and> ''llc'' \<noteq> ''corporation'' \<and> ''llc'' \<noteq> ''LLC''"
    by simp
  from accepted given
    company_type_is_literal_so_no_unsupported_type
      [where data = "\<lparr>fd_company_name = Some ''Smith & Sons, LLC'',
            fd_state_of_formation = Some ''DE'',
            fd_company_type = Some ''LLC'', fd_incorporator_name = Some ''Jane Doe''\<rparr>"
         and cd = "\<lparr>CompanyFormation.company_name = ''Smith & Sons, LLC'',
            state_of_formation = ''DE'',
            company_type = ''LLC'', incorporator_name = ''Jane Doe''\<rparr>"]
    company_type_is_literal_so_no_unsupported_type
      [where data = "\<lparr>fd_company_name = Some ''Smith & Sons, LLC'',
            fd_state_of_formation = Some ''DE'',
            fd_company_type = Some ''llc'', fd_incorporator_name = Some ''Jane Doe''\<rparr>"
         and c = "''llc''"
         and now = "(\<lparr>year = 2025, month_of = March, day = 7\<rparr>,
                     \<lparr>year = 2025, month_of = March, day = 7\<rparr>)"
         and request = "IsJson (JsonObject
            \<lparr>fd_company_name = Some ''Smith & Sons, LLC'', fd_state_of_formation = Some ''DE'',
             fd_company_type = Some ''llc'', fd_incorporator_name = Some ''Jane Doe''\<rparr>)"]
  show ?thesis by blast
qed

text \<open>
  C7, on the code. The record built from state_of_formation "de" is valid and keeps the
  state in lower case (upper-cased it is DE); \<^verbatim>\<open>form_company\<close> compares the field with
  'DE' and 'CA' as it stands, so this request for a Delaware corporation gets the JSON
  error for an unsupported jurisdiction with status 400 and no document, where the same
  request with "DE" is answered with the Delaware certificate of incorporation.
\<close>

theorem form_company_refuses_delaware_in_lower_case:
  "CompanyFormation_new
     \<lparr>fd_company_name = Some ''Acme Corp, Inc.'', fd_state_of_formation = Some ''de'',
      fd_company_type = Some ''corporation'', fd_incorporator_name = Some ''John Smith''\<rparr> =
   Inr \<lparr>CompanyFormation.company_name = ''Acme Corp, Inc.'', state_of_formation = ''de'',
        company_type = ''corporation'', incorporator_name = ''John Smith''\<rparr>
   \<and> upper ''de'' = ''DE''
   \<and> form_company
       (\<lparr>year = 2025, month_of = March, day = 7\<rparr>, \<lparr>year = 2025, month_of = March, day = 7\<rparr>)
       (IsJson (JsonObject
         \<lparr>fd_company_name = Some ''Acme Corp, Inc.'', fd_state_of_formation = Some ''de'',
          fd_company_type = Some ''corporation'', fd_incorporator_name = Some ''John Smith''\<rparr>)) =
     JsonError (Message ''Only Delaware and California entities are supported at this time'') 400
   \<and> form_company
       (\<lparr>year = 2025, month_of = March, day = 7\<rparr>, \<lparr>year = 2025, month_of = March, day = 7\<rparr>)
       (IsJson (JsonObject
         \<lparr>fd_company_name = Some ''Acme Corp, Inc.'', fd_state_of_formation = Some ''DE'',
          fd_company_type = Some ''corporation'', fd_incorporator_name = Some ''John Smith''\<rparr>)) =
     SendFile
       (generate_delaware_articles
         (\<lparr>year = 2025, month_of = March, day = 7\<rparr>, \<lparr>year = 2025, month_of = March, day = 7\<rparr>)
         \<lparr>CompanyFormation.company_name = ''Acme Corp, Inc.'', state_of_formation = ''DE'',
          company_type = ''corporation'', incorporator_name = ''John Smith''\<rparr>)
       ''application/pdf'' True ''Acme Corp, Inc._certificate.pdf''"
  by (simp add: form_company_def unpack_def send_file_def CompanyFormation_new_def Let_def
      required_def and_then_def literal_def upper_def upper_char_def)

text \<open>
  C1, on the code. \<^verbatim>\<open>validate_state\<close> is a method of \<^verbatim>\<open>BylawsRequest\<close>, so building a
  \<^verbatim>\<open>CompanyFormation\<close> runs no check on state_of_formation: the code "XX" of the
  repository's test is accepted, and "de" is kept in lower case, after which the handler
  reports an unsupported jurisdiction. The validator itself rejects "XX" and turns "de"
  into "DE".
\<close>

theorem CompanyFormation_accepts_state_outside_the_set:
  "CompanyFormation_new
     \<lparr>fd_company_name = Some ''Test Company'', fd_state_of_formation = Some ''XX'',
      fd_company_type = Some ''corporation'', fd_incorporator_name = Some ''Test User''\<rparr> =
   Inr \<lparr>CompanyFormation.company_name = ''Test Company'', state_of_formation = ''XX'',
        company_type = ''corporation'', incorporator_name = ''Test User''\<rparr>
   \<and> validate_state ''XX'' = Inl ''Invalid US state or territory''
   \<and> CompanyFormation_new
     \<lparr>fd_company_name = Some ''Test Company'', fd_state_of_formation = Some ''de'',
      fd_company_type = Some ''corporation'', fd_incorporator_name = Some ''Test User''\<rparr> =
   Inr \<lparr>CompanyFormation.company_name = ''Test Company'', state_of_formation = ''de'',
        company_type = ''corporation'', incorporator_name = ''Test User''\<rparr>
   \<and> validate_state ''de'' = Inr ''DE''
   \<and> form_company
       (\<lparr>year = 2025, month_of = March, day = 7\<rparr>, \<lparr>year = 2025, month_of = March, day = 7\<rparr>)
       (IsJson (JsonObject
         \<lparr>fd_company_name = Some ''Test Company'', fd_state_of_formation = Some ''de'',
          fd_company_type = Some ''corporation'', fd_incorporator_name = Some ''Test User''\<rparr>)) =
     JsonError (Message ''Only Delaware and California entities are supported at this time'') 400"
  by (simp add: form_company_def unpack_def CompanyFormation_new_def Let_def required_def
      and_then_def literal_def validate_state_def states_def upper_def upper_char_def)

text \<open>
  C6, on the code. \<^verbatim>\<open>validate_company_name\<close> is a method of \<^verbatim>\<open>BylawsRequest\<close>, so
  building a \<^verbatim>\<open>CompanyFormation\<close> accepts a company_name with characters outside the
  set, and the empty name; the validator itself rejects both.
\<close>

theorem CompanyFormation_accepts_company_name_outside_the_charset:
  "CompanyFormation_new
     \<lparr>fd_company_name = Some ''Acme <Corp>!'', fd_state_of_formation = Some ''DE'',
      fd_company_type = Some ''corporation'', fd_incorporator_name = Some ''John Smith''\<rparr> =
   Inr \<lparr>CompanyFormation.company_name = ''Acme <Corp>!'', state_of_formation = ''DE'',
        company_type = ''corporation'', incorporator_name = ''John Smith''\<rparr>
   \<and> CompanyFormation_new
     \<lparr>fd_company_name = Some [], fd_state_of_formation = Some ''DE'',
      fd_company_type = Some ''corporation'', fd_incorporator_name = Some ''John Smith''\<rparr> =
   Inr \<lparr>CompanyFormation.company_name = [], state_of_formation = ''DE'',
        company_type = ''corporation'', incorporator_name = ''John Smith''\<rparr>
   \<and> validate_company_name ''Acme <Corp>!'' =
     Inl ''Company name can only contain alphanumeric characters, spaces, commas, periods, apostrophes, and ampersands''
   \<and> validate_company_name [] =
     Inl ''Company name can only contain alphanumeric characters, spaces, commas, periods, apostrophes, and ampersands''
   \<and> validate_company_name ''Acme Corp, Inc.'' = Inr ''Acme Corp, Inc.''"
  by (simp add: CompanyFormation_new_def Let_def required_def and_then_def literal_def
      validate_company_name_def re_match_anchored_def company_name_re_def Plus_def
      cls_match_def is_space_def)

subsection \<open>The bylaws handler\<close>

text \<open>
  C3, on the code. For the valid bylaws record of the repository's tests with
  fiscal_year_end "13-31", \<^verbatim>\<open>BylawsRequest\<close> raises a validation error naming the
  field and the reason, and the handler, whose module does not import
  \<^verbatim>\<open>ValidationError\<close>, leaves with a \<^verbatim>\<open>NameError\<close> instead of returning a JSON error
  with status 400.
\<close>

theorem generate_company_bylaws_raises_NameError_on_invalid_body:
  "BylawsRequest_new
     \<lparr>bd_company_name = Some ''Test Corporation'',
      bd_principal_office = Some ''123 Main St, Suite 100, San Francisco, CA 94105'',
      bd_fiscal_year_end = Some ''13-31'', bd_board_size = Some 5,
      bd_officer_titles = Some [''Chief Executive Officer'', ''Secretary'', ''Treasurer''],
      bd_annual_meeting_month = Some ''June'', bd_quorum_percentage = Some 51\<rparr> =
   Inl (ValidationError [(''fiscal_year_end'', Raised ''Fiscal year end must be in MM-DD format'')])
   \<and> generate_company_bylaws (JsonObject
     \<lparr>bd_company_name = Some ''Test Corporation'',
      bd_principal_office = Some ''123 Main St, Suite 100, San Francisco, CA 94105'',
      bd_fiscal_year_end = Some ''13-31'', bd_board_size = Some 5,
      bd_officer_titles = Some [''Chief Executive Officer'', ''Secretary'', ''Treasurer''],
      bd_annual_meeting_month = Some ''June'', bd_quorum_percentage = Some 51\<rparr>) =
   Inl (NameError ''ValidationError'')"
proof -
  have name: "validate_company_name ''Test Corporation'' = Inr ''Test Corporation''"
    by (simp add: validate_company_name_def re_match_anchored_def company_name_re_def Plus_def
        cls_match_def is_space_def)
  have fiscal: "validate_fiscal_year_end ''13-31'' = Inl ''Fiscal year end must be in MM-DD format''"
    using fiscal_examples_rejected by simp
  have month: "validate_annual_meeting_month ''June'' = Inr ''June''"
    by (simp add: validate_annual_meeting_month_def months_def)
  have rejected: "BylawsRequest_new
     \<lparr>bd_company_name = Some ''Test Corporation'',
      bd_principal_office = Some ''123 Main St, Suite 100, San Francisco, CA 94105'',
      bd_fiscal_year_end = Some ''13-31'', bd_board_size = Some 5,
      bd_officer_titles = Some [''Chief Executive Officer'', ''Secretary'', ''Treasurer''],
      bd_annual_meeting_month = Some ''June'', bd_quorum_percentage = Some 51\<rparr> =
   Inl (ValidationError [(''fiscal_year_end'', Raised ''Fiscal year end must be in MM-DD format'')])"
    by (simp add: BylawsRequest_new_def Let_def required_def and_then_def validator_def ge_def
        le_def field_errors_def name fiscal month)
  show ?thesis
    unfolding generate_company_bylaws_def unpack_def rejected
    by (simp add: rejected module_globals_def)
qed

text \<open>For every body the handler either sends the bylaws of the validated record or leaves
  with the \<^verbatim>\<open>NameError\<close>; it returns no JSON error, with status 400 or 500.\<close>

lemma generate_company_bylaws_returns_no_json_error:
  "generate_company_bylaws body =
     (case unpack body of
        Inl e \<Rightarrow> Inl (NameError ''ValidationError'')
      | Inr data \<Rightarrow>
          (case BylawsRequest_new data of
             Inl e \<Rightarrow> Inl (NameError ''ValidationError'')
           | Inr bylaws_data \<Rightarrow>
               (case send_file (generate_bylaws bylaws_data) ''application/pdf'' False
                       (replace_char CHR '' '' CHR ''_'' (BylawsRequest.company_name bylaws_data)
                          @ ''_bylaws.pdf'') of
                  Inl e \<Rightarrow> Inl (NameError ''ValidationError'')
                | Inr sent \<Rightarrow> Inr sent)))
   \<and> generate_company_bylaws body \<noteq> Inr (JsonError message status)"
  by (simp add: generate_company_bylaws_def module_globals_def send_file_def split: sum.splits)

subsection \<open>The text of the documents\<close>

lemma drawn_strings_member:
  "DrawString x y s \<in> set (ops d) \<or> DrawCentredString x y s \<in> set (ops d) \<Longrightarrow>
     s \<in> set (drawn_strings d)"
  unfolding drawn_strings_def
  by (auto intro: bexI[where x = "DrawString x y s"] bexI[where x = "DrawCentredString x y s"])

lemma in_delaware_articles:
  "DrawString 70 680 (CompanyFormation.company_name cd) \<in> set (ops (generate_delaware_articles now cd))"
  "DrawString 70 80 (incorporator_name cd) \<in> set (ops (generate_delaware_articles now cd))"
  by (simp_all add: generate_delaware_articles_def ops_draw Canvas_def)

lemma in_delaware_llc:
  "DrawString 70 680 (CompanyFormation.company_name cd) \<in> set (ops (generate_delaware_llc_certificate now cd))"
  "DrawString 70 80 (incorporator_name cd) \<in> set (ops (generate_delaware_llc_certificate now cd))"
  by (simp_all add: generate_delaware_llc_certificate_def ops_draw Canvas_def)

lemma in_california_articles:
  "DrawString 70 680 (CompanyFormation.company_name cd) \<in> set (ops (generate_california_articles now cd))"
  "DrawString 70 80 (incorporator_name cd) \<in> set (ops (generate_california_articles now cd))"
  by (simp_all add: generate_california_articles_def ops_draw Canvas_def)

lemma in_california_llc:
  "DrawString 70 680 (CompanyFormation.company_name cd) \<in> set (ops (generate_california_llc_certificate now cd))"
  "DrawString 70 80 (incorporator_name cd) \<in> set (ops (generate_california_llc_certificate now cd))"
  by (simp_all add: generate_california_llc_certificate_def ops_draw Canvas_def)

lemma ops_generate_bylaws:
  "ops (generate_bylaws b) =
     take 24 (ops (generate_bylaws b)) @
     map (\<lambda>(k, title). DrawString 70 (360 - 20 * int k) (''- '' @ title))
       (enumerate 0 (officer_titles b)) @
     [SetFont ''Helvetica-Bold'' 14,
      DrawString 50 (360 - 20 * int (length (officer_titles b)) - 20) ''ARTICLE V - FISCAL YEAR'',
      SetFont ''Helvetica'' 12,
      DrawString 50 (360 - 20 * int (length (officer_titles b)) - 40)
        (''The fiscal year of the corporation shall end on '' @ fiscal_year_end b),
      DrawString 50 (360 - 20 * int (length (officer_titles b)) - 60) ''of each year.'']"
  by (simp add: generate_bylaws_def officers_loop_result ops_draw Canvas_def)

lemma in_bylaws_fixed:
  "DrawCentredString 300 730 (upper (BylawsRequest.company_name b)) \<in> set (ops (generate_bylaws b))"
  "DrawString 70 640 (principal_office b) \<in> set (ops (generate_bylaws b))"
  "DrawString 70 560 (annual_meeting_month b @ '' of each year.'') \<in> set (ops (generate_bylaws b))"
  "DrawString 50 540 (''2. Quorum. '' @ str_int (quorum_percentage b) @
      ''% of the outstanding shares shall constitute'') \<in> set (ops (generate_bylaws b))"
  "DrawString 50 460 (''1. Number. The Board of Directors shall consist of '' @
      str_int (board_size b)) \<in> set (ops (generate_bylaws b))"
  by (simp_all add: generate_bylaws_def officers_loop_result ops_draw Canvas_def)

lemma in_bylaws_fiscal:
  "DrawString 50 (360 - 20 * int (length (officer_titles b)) - 40)
     (''The fiscal year of the corporation shall end on '' @ fiscal_year_end b)
   \<in> set (ops (generate_bylaws b))"
  by (subst ops_generate_bylaws) simp

lemma in_bylaws_officer:
  assumes "title \<in> set (officer_titles b)"
  shows "\<exists>y. DrawString 70 y (''- '' @ title) \<in> set (ops (generate_bylaws b))"
proof -
  from assms obtain k where k: "k < length (officer_titles b)" "officer_titles b ! k = title"
    by (auto simp: in_set_conv_nth)
  then have "(k, title) \<in> set (enumerate 0 (officer_titles b))"
    by (auto simp: in_set_enumerate_eq)
  then have "DrawString 70 (360 - 20 * int k) (''- '' @ title) \<in>
      set (map (\<lambda>(k, title). DrawString 70 (360 - 20 * int k) (''- '' @ title))
            (enumerate 0 (officer_titles b)))"
    by force
  then have "DrawString 70 (360 - 20 * int k) (''- '' @ title) \<in> set (ops (generate_bylaws b))"
    by (subst ops_generate_bylaws) simp
  then show ?thesis ..
qed

text \<open>What each generator draws of its record: the formation documents draw company_name
  and incorporator_name as given; the bylaws draw company_name in upper case and the
  other values as given, inside the sentences of the articles.\<close>

lemma input_values_are_drawn:
  "CompanyFormation.company_name cd \<in> set (drawn_strings (generate_delaware_articles now cd))
   \<and> incorporator_name cd \<in> set (drawn_strings (generate_delaware_articles now cd))
   \<and> CompanyFormation.company_name cd \<in> set (drawn_strings (generate_delaware_llc_certificate now cd))
   \<and> incorporator_name cd \<in> set (drawn_strings (generate_delaware_llc_certificate now cd))
   \<and> CompanyFormation.company_name cd \<in> set (drawn_strings (generate_california_articles now cd))
   \<and> incorporator_name cd \<in> set (drawn_strings (generate_california_articles now cd))
   \<and> CompanyFormation.company_name cd \<in> set (drawn_strings (generate_california_llc_certificate now cd))
   \<and> incorporator_name cd \<in> set (drawn_strings (generate_california_llc_certificate now cd))
   \<and> upper (BylawsRequest.company_name b) \<in> set (drawn_strings (generate_bylaws b))
   \<and> principal_office b \<in> set (drawn_strings (generate_bylaws b))
   \<and> annual_meeting_month b @ '' of each year.'' \<in> set (drawn_strings (generate_bylaws b))
   \<and> ''2. Quorum. '' @ str_int (quorum_percentage b) @
        ''% of the outstanding shares shall constitute'' \<in> set (drawn_strings (generate_bylaws b))
   \<and> ''1. Number. The Board of Directors shall consist of '' @ str_int (board_size b)
        \<in> set (drawn_strings (generate_bylaws b))
   \<and> ''The fiscal year of the corporation shall end on '' @ fiscal_year_end b
        \<in> set (drawn_strings (generate_bylaws b))
   \<and> (\<forall>title \<in> set (officer_titles b). ''- '' @ title \<in> set (drawn_strings (generate_bylaws b)))"
proof -
  have officers:
    "\<forall>title \<in> set (officer_titles b). ''- '' @ title \<in> set (drawn_strings (generate_bylaws b))"
  proof
    fix title assume "title \<in> set (officer_titles b)"
    then obtain y where "DrawString 70 y (''- '' @ title) \<in> set (ops (generate_bylaws b))"
      using in_bylaws_officer by blast
    then show "''- '' @ title \<in> set (drawn_strings (generate_bylaws b))"
      by (rule drawn_strings_member[OF disjI1])
  qed
  show ?thesis
    by (intro conjI officers
      drawn_strings_member[OF disjI1, OF in_delaware_articles(1)]
      drawn_strings_member[OF disjI1, OF in_delaware_articles(2)]
      drawn_strings_member[OF disjI1, OF in_delaware_llc(1)]
      drawn_strings_member[OF disjI1, OF in_delaware_llc(2)]
      drawn_strings_member[OF disjI1, OF in_california_articles(1)]
      drawn_strings_member[OF disjI1, OF in_california_articles(2)]
      drawn_strings_member[OF disjI1, OF in_california_llc(1)]
      drawn_strings_member[OF disjI1, OF in_california_llc(2)]
      drawn_strings_member[OF disjI2, OF in_bylaws_fixed(1)]
      drawn_strings_member[OF disjI1, OF in_bylaws_fixed(2)]
      drawn_strings_member[OF disjI1, OF in_bylaws_fixed(3)]
      drawn_strings_member[OF disjI1, OF in_bylaws_fixed(4)]
      drawn_strings_member[OF disjI1, OF in_bylaws_fixed(5)]
      drawn_strings_member[OF disjI1, OF in_bylaws_fiscal])
qed

text \<open>
  C4, on the code. The valid bylaws data of the repository's tests gives a record whose
  bylaws draw the strings listed, the company name as TEST CORPORATION; no drawn string
  contains the name as it was given, Test Corporation, which the repository's tests expect
  to find in the text of the document.
\<close>

theorem bylaws_draw_the_company_name_in_upper_case:
  "BylawsRequest_new VALID_BYLAWS_DATA =
   Inr \<lparr>BylawsRequest.company_name = ''Test Corporation'',
        principal_office = ''123 Main St, Suite 100, San Francisco, CA 94105'',
        fiscal_year_end = ''12-31'',
        board_size = 5,
        officer_titles = [''Chief Executive Officer'', ''Secretary'', ''Treasurer''],
        annual_meeting_month = ''June'',
        quorum_percentage = 51\<rparr>
   \<and> drawn_strings (generate_bylaws
        \<lparr>BylawsRequest.company_name = ''Test Corporation'',
         principal_office = ''123 Main St, Suite 100, San Francisco, CA 94105'',
         fiscal_year_end = ''12-31'',
         board_size = 5,
         officer_titles = [''Chief Executive Officer'', ''Secretary'', ''Treasurer''],
         annual_meeting_month = ''June'',
         quorum_percentage = 51\<rparr>) =
     [''CORPORATE BYLAWS OF'',
      ''TEST CORPORATION'',
      ''ARTICLE I - OFFICES'',
      ''The principal office of the corporation shall be located at:'',
      ''123 Main St, Suite 100, San Francisco, CA 94105'',
      ''ARTICLE II - SHAREHOLDERS MEETINGS'',
      ''1. Annual Meeting. The annual meeting of shareholders shall be held in'',
      ''June of each year.'',
      ''2. Quorum. 51% of the outstanding shares shall constitute'',
      ''a quorum for the transaction of business.'',
      ''ARTICLE III - BOARD OF DIRECTORS'',
      ''1. Number. The Board of Directors shall consist of 5'',
      ''director(s).'',
      ''ARTICLE IV - OFFICERS'',
      ''1. Officers. The officers of the corporation shall be:'',
      ''- Chief Executive Officer'',
      ''- Secretary'',
      ''- Treasurer'',
      ''ARTICLE V - FISCAL YEAR'',
      ''The fiscal year of the corporation shall end on 12-31'',
      ''of each year.'']
   \<and> list_all (\<lambda>s. \<not> sublist ''Test Corporation'' s)
       (drawn_strings (generate_bylaws
          \<lparr>BylawsRequest.company_name = ''Test Corporation'',
           principal_office = ''123 Main St, Suite 100, San Francisco, CA 94105'',
           fiscal_year_end = ''12-31'',
           board_size = 5,
           officer_titles = [''Chief Executive Officer'', ''Secretary'', ''Treasurer''],
           annual_meeting_month = ''June'',
           quorum_percentage = 51\<rparr>))"
proof -
  have drawn: "drawn_strings (generate_bylaws
        \<lparr>BylawsRequest.company_name = ''Test Corporation'',
         principal_office = ''123 Main St, Suite 100, San Francisco, CA 94105'',
         fiscal_year_end = ''12-31'',
         board_size = 5,
         officer_titles = [''Chief Executive Officer'', ''Secretary'', ''Treasurer''],
         annual_meeting_month = ''June'',
         quorum_percentage = 51\<rparr>) =
     [''CORPORATE BYLAWS OF'',
      ''TEST CORPORATION'',
      ''ARTICLE I - OFFICES'',
      ''The principal office of the corporation shall be located at:'',
      ''123 Main St, Suite 100, San Francisco, CA 94105'',
      ''ARTICLE II - SHAREHOLDERS MEETINGS'',
      ''1. Annual Meeting. The annual meeting of shareholders shall be held in'',
      ''June of each year.'',
      ''2. Quorum. 51% of the outstanding shares shall constitute'',
      ''a quorum for the transaction of business.'',
      ''ARTICLE III - BOARD OF DIRECTORS'',
      ''1. Number. The Board of Directors shall consist of 5'',
      ''director(s).'',
      ''ARTICLE IV - OFFICERS'',
      ''1. Officers. The officers of the corporation shall be:'',
      ''- Chief Executive Officer'',
      ''- Secretary'',
      ''- Treasurer'',
      ''ARTICLE V - FISCAL YEAR'',
      ''The fiscal year of the corporation shall end on 12-31'',
      ''of each year.'']"
    by (simp add: drawn_strings_def generate_bylaws_def drawString_def ops_draw Canvas_def
        upper_def upper_char_def str_int_def digit_char_def)
  have absent: "list_all (\<lambda>s. \<not> sublist ''Test Corporation'' s)
     [''CORPORATE BYLAWS OF'',
      ''TEST CORPORATION'',
      ''ARTICLE I - OFFICES'',
      ''The principal office of the corporation shall be located at:'',
      ''123 Main St, Suite 100, San Francisco, CA 94105'',
      ''ARTICLE II - SHAREHOLDERS MEETINGS'',
      ''1. Annual Meeting. The annual meeting of shareholders shall be held in'',
      ''June of each year.'',
      ''2. Quorum. 51% of the outstanding shares shall constitute'',
      ''a quorum for the transaction of business.'',
      ''ARTICLE III - BOARD OF DIRECTORS'',
      ''1. Number. The Board of Directors shall consist of 5'',
      ''director(s).'',
      ''ARTICLE IV - OFFICERS'',
      ''1. Officers. The officers of the corporation shall be:'',
      ''- Chief Executive Officer'',
      ''- Secretary'',
      ''- Treasurer'',
      ''ARTICLE V - FISCAL YEAR'',
      ''The fiscal year of the corporation shall end on 12-31'',
      ''of each year.'']"
    by code_simp
  show ?thesis
    unfolding drawn using absent VALID_BYLAWS_DATA_validated by simp
qed

end
